theory Spec2Isabelle
  imports Main "HOL-Library.Sublist"
begin

section \<open>The argument builder of \<^verbatim>\<open>src/context.ts\<close>\<close>

text \<open>
  \<^verbatim>\<open>getArgs\<close> turns the action's inputs into the token list of a
  \<^verbatim>\<open>buildx build\<close> invocation. It is built from \<^verbatim>\<open>getBuildArgs\<close>,
  \<^verbatim>\<open>getCommonArgs\<close> and \<^verbatim>\<open>getAttestArgs\<close>. The functions are embedded
  as they are written: the local array \<^verbatim>\<open>args\<close> and the log written by
  \<^verbatim>\<open>core.warning\<close> are threaded as a state, every \<^verbatim>\<open>args.push\<close>
  appends at the end, \<^verbatim>\<open>Util.asyncForEach\<close> runs its callback on the
  elements from left to right, and a JavaScript string or array is truthy when it
  is not empty.
\<close>

subsection \<open>Inputs\<close>

text \<open>The interface \<^verbatim>\<open>Inputs\<close>, field by field (\<^verbatim>\<open>context\<close> and
  \<^verbatim>\<open>file\<close> are keywords of the theory language, so these two fields are
  \<open>context'\<close> and \<open>file'\<close>).\<close>

record Inputs =
  addHosts :: "string list"
  allow :: "string list"
  annotations :: "string list"
  attests :: "string list"
  buildArgs :: "string list"
  buildContexts :: "string list"
  builder :: string
  cacheFrom :: "string list"
  cacheTo :: "string list"
  cgroupParent :: string
  context' :: string
  file' :: string
  labels :: "string list"
  load :: bool
  network :: string
  noCache :: bool
  noCacheFilters :: "string list"
  outputs :: "string list"
  platforms :: "string list"
  provenance :: string
  pull :: bool
  push :: bool
  sbom :: string
  secrets :: "string list"
  secretEnvs :: "string list"
  secretFiles :: "string list"
  shmSize :: string
  ssh :: "string list"
  tags :: "string list"
  target :: string
  ulimit :: "string list"
  githubToken :: string

subsection \<open>Collaborators\<close>

text \<open>
  Everything \<^verbatim>\<open>context.ts\<close> imports is a parameter of the model: the
  version checks of \<^verbatim>\<open>toolkit.buildx\<close> and \<^verbatim>\<open>toolkit.buildkit\<close>, the
  static helpers of \<^verbatim>\<open>Build\<close>, \<^verbatim>\<open>Context.gitContext()\<close>, the
  \<^verbatim>\<open>private\<close> field of the repository in the GitHub payload (\<open>None\<close>
  when the payload has no repository or no such field) and the handlebars
  rendering of a template with the single variable \<^verbatim>\<open>defaultContext\<close>.
  The three secret resolvers are the calls the source wraps in
  \<^verbatim>\<open>try\<close>/\<^verbatim>\<open>catch\<close>: they return \<open>Inl message\<close> for a thrown
  \<^verbatim>\<open>Error\<close> and \<open>Inr value\<close> otherwise. The other collaborators are
  taken to return.
\<close>

record toolkit =
  buildx_versionSatisfies :: "string \<Rightarrow> bool"
  buildkit_versionSatisfies :: "string \<Rightarrow> string \<Rightarrow> bool"
  resolveSecretEnv :: "string \<Rightarrow> string + string"
  resolveSecretString :: "string \<Rightarrow> string + string"
  resolveSecretFile :: "string \<Rightarrow> string + string"
  hasLocalExporter :: "string list \<Rightarrow> bool"
  hasTarExporter :: "string list \<Rightarrow> bool"
  hasDockerExporter :: "string list \<Rightarrow> bool \<Rightarrow> bool"
  hasGitAuthTokenSecret :: "string list \<Rightarrow> bool"
  hasAttestationType :: "string \<Rightarrow> string \<Rightarrow> bool"
  resolveAttestationAttrs :: "string \<Rightarrow> string"
  resolveProvenanceAttrs :: "string \<Rightarrow> string"
  getImageIDFilePath :: string
  getMetadataFilePath :: string
  gitContext :: string
  repository_private :: "bool option"
  handlebars_compile :: "string \<Rightarrow> string \<Rightarrow> string"

subsection \<open>The state of a builder run\<close>

record bstate =
  args :: "string list"
  warnings :: "string list"

definition args_push :: "string list \<Rightarrow> bstate \<Rightarrow> bstate" where
  "args_push ts s = s\<lparr>args := args s @ ts\<rparr>"

definition core_warning :: "string \<Rightarrow> bstate \<Rightarrow> bstate" where
  "core_warning m s = s\<lparr>warnings := warnings s @ [m]\<rparr>"

text \<open>\<^verbatim>\<open>Util.asyncForEach(array, callback)\<close>: the callback is awaited on each
  element in turn.\<close>

primrec asyncForEach :: "'a list \<Rightarrow> ('a \<Rightarrow> 's \<Rightarrow> 's) \<Rightarrow> 's \<Rightarrow> 's" where
  "asyncForEach [] callback s = s"
| "asyncForEach (x # xs) callback s = asyncForEach xs callback (callback x s)"

text \<open>A block of statements, run one after the other.\<close>

primrec seq :: "('s \<Rightarrow> 's) list \<Rightarrow> 's \<Rightarrow> 's" where
  "seq [] s = s"
| "seq (f # fs) s = seq fs (f s)"

text \<open>\<^verbatim>\<open>Array.prototype.join\<close>.\<close>

fun join :: "string \<Rightarrow> string list \<Rightarrow> string" where
  "join sep [] = []"
| "join sep [x] = x"
| "join sep (x # y # ys) = x @ sep @ join sep (y # ys)"

text \<open>The callback of the three secret loops: push the flag, or catch the error
  and warn with its message.\<close>

definition try_secret :: "(string \<Rightarrow> string + string) \<Rightarrow> string \<Rightarrow> bstate \<Rightarrow> bstate" where
  "try_secret resolve secret s =
     (case resolve secret of
        Inr v \<Rightarrow> args_push [''--secret'', v] s
      | Inl message \<Rightarrow> core_warning message s)"

subsection \<open>\<^verbatim>\<open>getAttestArgs\<close>\<close>

record astate =
  attestArgs :: "string list"
  provenanceSet :: bool
  sbomSet :: bool

definition attest_push :: "string list \<Rightarrow> astate \<Rightarrow> astate" where
  "attest_push ts s = s\<lparr>attestArgs := attestArgs s @ ts\<rparr>"

definition getAttestArgs :: "toolkit \<Rightarrow> Inputs \<Rightarrow> string list" where
  "getAttestArgs tk inputs =
     (let hasAttestProvenance =
            asyncForEach (attests inputs)
              (\<lambda>attest h. if hasAttestationType tk ''provenance'' attest then True else h)
              False
      in attestArgs (seq [
        (\<lambda>s. if provenance inputs \<noteq> [] then
                (attest_push [''--attest'',
                   resolveAttestationAttrs tk (''type=provenance,'' @ provenance inputs)] s)
                \<lparr>provenanceSet := True\<rparr>
              else if \<not> hasAttestProvenance
                      \<and> buildkit_versionSatisfies tk (builder inputs) ''>=0.11.0''
                      \<and> \<not> hasDockerExporter tk (outputs inputs) (load inputs) then
                (if (case repository_private tk of Some p \<Rightarrow> p | None \<Rightarrow> False) then
                   attest_push [''--attest'',
                     ''type=provenance,'' @ resolveProvenanceAttrs tk ''mode=min,inline-only=true''] s
                 else
                   attest_push [''--attest'',
                     ''type=provenance,'' @ resolveProvenanceAttrs tk ''mode=max''] s)
              else s),
        (\<lambda>s. if sbom inputs \<noteq> [] then
                (attest_push [''--attest'',
                   resolveAttestationAttrs tk (''type=sbom,'' @ sbom inputs)] s)
                \<lparr>sbomSet := True\<rparr>
              else s),
        asyncForEach (attests inputs) (\<lambda>attest s.
          if \<not> hasAttestationType tk ''provenance'' attest
             \<and> \<not> hasAttestationType tk ''sbom'' attest then
            attest_push [''--attest'', resolveAttestationAttrs tk attest] s
          else if \<not> provenanceSet s \<and> hasAttestationType tk ''provenance'' attest then
            attest_push [''--attest'', resolveProvenanceAttrs tk attest] s
          else if \<not> sbomSet s \<and> hasAttestationType tk ''sbom'' attest then
            attest_push [''--attest'', attest] s
          else s)
      ] \<lparr>attestArgs = [], provenanceSet = False, sbomSet = False\<rparr>))"

subsection \<open>\<^verbatim>\<open>getCommonArgs\<close>\<close>

definition getCommonArgs :: "toolkit \<Rightarrow> Inputs \<Rightarrow> string list" where
  "getCommonArgs tk inputs = seq [
     (\<lambda>a. if builder inputs \<noteq> [] then a @ [''--builder'', builder inputs] else a),
     (\<lambda>a. if load inputs then a @ [''--load''] else a),
     (\<lambda>a. if buildx_versionSatisfies tk ''>=0.6.0''
           then a @ [''--metadata-file'', getMetadataFilePath tk] else a),
     (\<lambda>a. if network inputs \<noteq> [] then a @ [''--network'', network inputs] else a),
     (\<lambda>a. if noCache inputs then a @ [''--no-cache''] else a),
     (\<lambda>a. if pull inputs then a @ [''--pull''] else a),
     (\<lambda>a. if push inputs then a @ [''--push''] else a)
   ] []"

subsection \<open>\<^verbatim>\<open>getBuildArgs\<close>\<close>

text \<open>
  The only statement of \<^verbatim>\<open>getBuildArgs\<close> that can throw is the unguarded
  \<^verbatim>\<open>Build.resolveSecretString\<close> of the synthesized git auth token; the error
  then leaves \<^verbatim>\<open>getBuildArgs\<close> and \<^verbatim>\<open>getArgs\<close>. The result is
  \<open>Inl message\<close> in that case and \<open>Inr args\<close> otherwise, paired with the
  warnings logged up to there.
\<close>

definition gitAuthTokenWanted :: "toolkit \<Rightarrow> Inputs \<Rightarrow> string \<Rightarrow> bool" where
  "gitAuthTokenWanted tk inputs context \<longleftrightarrow>
     githubToken inputs \<noteq> []
     \<and> \<not> hasGitAuthTokenSecret tk (secrets inputs)
     \<and> prefix (gitContext tk) context"

definition getBuildArgs :: "toolkit \<Rightarrow> Inputs \<Rightarrow> string \<Rightarrow> (string + string list) \<times> string list" where
  "getBuildArgs tk inputs context =
     (let s = seq [
        asyncForEach (addHosts inputs) (\<lambda>addHost. args_push [''--add-host'', addHost]),
        (\<lambda>s. if length (allow inputs) > 0
              then args_push [''--allow'', join '','' (allow inputs)] s else s),
        (\<lambda>s. if buildx_versionSatisfies tk ''>=0.12.0'' then
                asyncForEach (annotations inputs)
                  (\<lambda>annotation. args_push [''--annotation'', annotation]) s
              else if length (annotations inputs) > 0 then
                core_warning ''Annotations are only supported by buildx >= 0.12.0; the input 'annotations' is ignored.'' s
              else s),
        asyncForEach (buildArgs inputs) (\<lambda>buildArg. args_push [''--build-arg'', buildArg]),
        (\<lambda>s. if buildx_versionSatisfies tk ''>=0.8.0'' then
                asyncForEach (buildContexts inputs)
                  (\<lambda>buildContext. args_push [''--build-context'', buildContext]) s
              else if length (buildContexts inputs) > 0 then
                core_warning ''Build contexts are only supported by buildx >= 0.8.0; the input 'build-contexts' is ignored.'' s
              else s),
        asyncForEach (cacheFrom inputs) (\<lambda>cacheFrom. args_push [''--cache-from'', cacheFrom]),
        asyncForEach (cacheTo inputs) (\<lambda>cacheTo. args_push [''--cache-to'', cacheTo]),
        (\<lambda>s. if cgroupParent inputs \<noteq> []
              then args_push [''--cgroup-parent'', cgroupParent inputs] s else s),
        asyncForEach (secretEnvs inputs) (try_secret (resolveSecretEnv tk)),
        (\<lambda>s. if file' inputs \<noteq> [] then args_push [''--file'', file' inputs] s else s),
        (\<lambda>s. if \<not> hasLocalExporter tk (outputs inputs) \<and> \<not> hasTarExporter tk (outputs inputs)
                 \<and> (length (platforms inputs) = 0 \<or> buildx_versionSatisfies tk ''>=0.4.2'')
              then args_push [''--iidfile'', getImageIDFilePath tk] s else s),
        asyncForEach (labels inputs) (\<lambda>label. args_push [''--label'', label]),
        asyncForEach (noCacheFilters inputs)
          (\<lambda>noCacheFilter. args_push [''--no-cache-filter'', noCacheFilter]),
        asyncForEach (outputs inputs) (\<lambda>output. args_push [''--output'', output]),
        (\<lambda>s. if length (platforms inputs) > 0
              then args_push [''--platform'', join '','' (platforms inputs)] s else s),
        (\<lambda>s. if buildx_versionSatisfies tk ''>=0.10.0'' then
                args_push (getAttestArgs tk inputs) s
              else
                core_warning ''Attestations are only supported by buildx >= 0.10.0; the inputs 'attests', 'provenance' and 'sbom' are ignored.'' s),
        asyncForEach (secrets inputs) (try_secret (resolveSecretString tk)),
        asyncForEach (secretFiles inputs) (try_secret (resolveSecretFile tk))
      ] \<lparr>args = [''build''], warnings = []\<rparr>;
      rest = seq [
        (\<lambda>s. if shmSize inputs \<noteq> [] then args_push [''--shm-size'', shmSize inputs] s else s),
        asyncForEach (ssh inputs) (\<lambda>ssh. args_push [''--ssh'', ssh]),
        asyncForEach (tags inputs) (\<lambda>tag. args_push [''--tag'', tag]),
        (\<lambda>s. if target inputs \<noteq> [] then args_push [''--target'', target inputs] s else s),
        asyncForEach (ulimit inputs) (\<lambda>ulimit. args_push [''--ulimit'', ulimit])
      ]
      in if gitAuthTokenWanted tk inputs context then
           (case resolveSecretString tk (''GIT_AUTH_TOKEN='' @ githubToken inputs) of
              Inl message \<Rightarrow> (Inl message, warnings s)
            | Inr v \<Rightarrow> (Inr (args (rest (args_push [''--secret'', v] s))), warnings s))
         else (Inr (args (rest s)), warnings s))"

subsection \<open>\<^verbatim>\<open>getArgs\<close>\<close>

definition getArgs :: "toolkit \<Rightarrow> Inputs \<Rightarrow> (string + string list) \<times> string list" where
  "getArgs tk inputs =
     (let context = handlebars_compile tk (context' inputs) (gitContext tk)
      in case getBuildArgs tk inputs context of
           (Inl message, w) \<Rightarrow> (Inl message, w)
         | (Inr build, w) \<Rightarrow> (Inr (build @ getCommonArgs tk inputs @ [context]), w))"


subsection \<open>Reading the output\<close>

text \<open>
  Every \<^verbatim>\<open>args.push\<close> of \<^verbatim>\<open>getBuildArgs\<close> and \<^verbatim>\<open>getAttestArgs\<close>
  appends a flag and its value. \<open>flagPairs\<close> reads a token list two tokens at
  a time, \<open>unpairs\<close> writes the pairs back, and \<open>flagValues f ts\<close> lists,
  in order, the values given to the flag \<open>f\<close> after the sub-command token.
\<close>

fun flagPairs :: "string list \<Rightarrow> (string \<times> string) list" where
  "flagPairs (f # v # ts) = (f, v) # flagPairs ts"
| "flagPairs ts = []"

definition unpairs :: "(string \<times> string) list \<Rightarrow> string list" where
  "unpairs ps = concat (map (\<lambda>(f, v). [f, v]) ps)"

definition flagValues :: "string \<Rightarrow> string list \<Rightarrow> string list" where
  "flagValues f ts = map snd (filter (\<lambda>p. fst p = f) (flagPairs (tl ts)))"

text \<open>The values of the entries a resolver accepts, and the messages of the
  entries it rejects, both in the order of the entries.\<close>

definition resolved :: "(string \<Rightarrow> string + string) \<Rightarrow> string list \<Rightarrow> string list" where
  "resolved resolve xs = concat (map (\<lambda>x. case resolve x of Inr v \<Rightarrow> [v] | Inl m \<Rightarrow> []) xs)"

definition failures :: "(string \<Rightarrow> string + string) \<Rightarrow> string list \<Rightarrow> string list" where
  "failures resolve xs = concat (map (\<lambda>x. case resolve x of Inr v \<Rightarrow> [] | Inl m \<Rightarrow> [m]) xs)"

text \<open>The value of the synthesized git auth token flag, when the builder pushes it.\<close>

definition gitAuthTokenFlag :: "toolkit \<Rightarrow> Inputs \<Rightarrow> string \<Rightarrow> string list" where
  "gitAuthTokenFlag tk i ctx =
     (if gitAuthTokenWanted tk i ctx
      then (case resolveSecretString tk (''GIT_AUTH_TOKEN='' @ githubToken i) of
              Inr v \<Rightarrow> [v] | Inl m \<Rightarrow> [])
      else [])"

text \<open>The three advisory messages of \<^verbatim>\<open>getBuildArgs\<close>.\<close>

definition annotationsWarning :: string where
  "annotationsWarning =
     ''Annotations are only supported by buildx >= 0.12.0; the input 'annotations' is ignored.''"

definition buildContextsWarning :: string where
  "buildContextsWarning =
     ''Build contexts are only supported by buildx >= 0.8.0; the input 'build-contexts' is ignored.''"

definition attestationsWarning :: string where
  "attestationsWarning =
     ''Attestations are only supported by buildx >= 0.10.0; the inputs 'attests', 'provenance' and 'sbom' are ignored.''"

subsection \<open>The flags as one expression\<close>

text \<open>
  The run of each function, written as the list of flag pairs it leaves behind.
  The lemmas \<open>getAttestArgs_flags\<close> and \<open>getBuildArgs_flags\<close> below prove
  that the functions above compute exactly these lists.
\<close>

definition emit :: "(string \<times> string) list \<Rightarrow> string list \<Rightarrow> bstate \<Rightarrow> bstate" where
  "emit ps ws s = s\<lparr>args := args s @ unpairs ps, warnings := warnings s @ ws\<rparr>"

definition attestEntry :: "toolkit \<Rightarrow> bool \<Rightarrow> bool \<Rightarrow> string \<Rightarrow> (string \<times> string) list" where
  "attestEntry tk pSet sSet attest =
     (if \<not> hasAttestationType tk ''provenance'' attest \<and> \<not> hasAttestationType tk ''sbom'' attest
      then [(''--attest'', resolveAttestationAttrs tk attest)]
      else if \<not> pSet \<and> hasAttestationType tk ''provenance'' attest
      then [(''--attest'', resolveProvenanceAttrs tk attest)]
      else if \<not> sSet \<and> hasAttestationType tk ''sbom'' attest
      then [(''--attest'', attest)]
      else [])"

definition defaultProvenance :: "toolkit \<Rightarrow> string" where
  "defaultProvenance tk =
     ''type=provenance,'' @ resolveProvenanceAttrs tk
        (if repository_private tk = Some True then ''mode=min,inline-only=true'' else ''mode=max'')"

definition attestFlags :: "toolkit \<Rightarrow> Inputs \<Rightarrow> (string \<times> string) list" where
  "attestFlags tk i =
     (if provenance i \<noteq> []
      then [(''--attest'', resolveAttestationAttrs tk (''type=provenance,'' @ provenance i))]
      else if (\<forall>a \<in> set (attests i). \<not> hasAttestationType tk ''provenance'' a)
              \<and> buildkit_versionSatisfies tk (builder i) ''>=0.11.0''
              \<and> \<not> hasDockerExporter tk (outputs i) (load i)
      then [(''--attest'', defaultProvenance tk)]
      else [])
     @ (if sbom i \<noteq> []
        then [(''--attest'', resolveAttestationAttrs tk (''type=sbom,'' @ sbom i))] else [])
     @ concat (map (attestEntry tk (provenance i \<noteq> []) (sbom i \<noteq> [])) (attests i))"

definition iidfileWanted :: "toolkit \<Rightarrow> Inputs \<Rightarrow> bool" where
  "iidfileWanted tk i \<longleftrightarrow>
     \<not> hasLocalExporter tk (outputs i) \<and> \<not> hasTarExporter tk (outputs i)
     \<and> (platforms i = [] \<or> buildx_versionSatisfies tk ''>=0.4.2'')"

definition buildFlags :: "toolkit \<Rightarrow> Inputs \<Rightarrow> (string \<times> string) list" where
  "buildFlags tk i =
     map (Pair ''--add-host'') (addHosts i)
     @ (if allow i \<noteq> [] then [(''--allow'', join '','' (allow i))] else [])
     @ (if buildx_versionSatisfies tk ''>=0.12.0''
        then map (Pair ''--annotation'') (annotations i) else [])
     @ map (Pair ''--build-arg'') (buildArgs i)
     @ (if buildx_versionSatisfies tk ''>=0.8.0''
        then map (Pair ''--build-context'') (buildContexts i) else [])
     @ map (Pair ''--cache-from'') (cacheFrom i)
     @ map (Pair ''--cache-to'') (cacheTo i)
     @ (if cgroupParent i \<noteq> [] then [(''--cgroup-parent'', cgroupParent i)] else [])
     @ map (Pair ''--secret'') (resolved (resolveSecretEnv tk) (secretEnvs i))
     @ (if file' i \<noteq> [] then [(''--file'', file' i)] else [])
     @ (if iidfileWanted tk i then [(''--iidfile'', getImageIDFilePath tk)] else [])
     @ map (Pair ''--label'') (labels i)
     @ map (Pair ''--no-cache-filter'') (noCacheFilters i)
     @ map (Pair ''--output'') (outputs i)
     @ (if platforms i \<noteq> [] then [(''--platform'', join '','' (platforms i))] else [])
     @ (if buildx_versionSatisfies tk ''>=0.10.0'' then attestFlags tk i else [])
     @ map (Pair ''--secret'') (resolved (resolveSecretString tk) (secrets i))
     @ map (Pair ''--secret'') (resolved (resolveSecretFile tk) (secretFiles i))"

definition tailFlags :: "Inputs \<Rightarrow> (string \<times> string) list" where
  "tailFlags i =
     (if shmSize i \<noteq> [] then [(''--shm-size'', shmSize i)] else [])
     @ map (Pair ''--ssh'') (ssh i)
     @ map (Pair ''--tag'') (tags i)
     @ (if target i \<noteq> [] then [(''--target'', target i)] else [])
     @ map (Pair ''--ulimit'') (ulimit i)"

definition buildWarnings :: "toolkit \<Rightarrow> Inputs \<Rightarrow> string list" where
  "buildWarnings tk i =
     (if \<not> buildx_versionSatisfies tk ''>=0.12.0'' \<and> annotations i \<noteq> []
      then [annotationsWarning] else [])
     @ (if \<not> buildx_versionSatisfies tk ''>=0.8.0'' \<and> buildContexts i \<noteq> []
        then [buildContextsWarning] else [])
     @ failures (resolveSecretEnv tk) (secretEnvs i)
     @ (if \<not> buildx_versionSatisfies tk ''>=0.10.0'' then [attestationsWarning] else [])
     @ failures (resolveSecretString tk) (secrets i)
     @ failures (resolveSecretFile tk) (secretFiles i)"

definition commonFlags :: "toolkit \<Rightarrow> Inputs \<Rightarrow> string list" where
  "commonFlags tk i =
     (if builder i \<noteq> [] then [''--builder'', builder i] else [])
     @ (if load i then [''--load''] else [])
     @ (if buildx_versionSatisfies tk ''>=0.6.0''
        then [''--metadata-file'', getMetadataFilePath tk] else [])
     @ (if network i \<noteq> [] then [''--network'', network i] else [])
     @ (if noCache i then [''--no-cache''] else [])
     @ (if pull i then [''--pull''] else [])
     @ (if push i then [''--push''] else [])"

subsection \<open>Collaborators that answer alike\<close>

text \<open>
  Two toolkits give the same responses on the inputs \<open>i\<close> when they agree on
  every query the builder can make for \<open>i\<close>: the five buildx ranges and the
  BuildKit range for the builder of \<open>i\<close>, the resolution of each listed secret
  and of the synthesized one, the exporter and git-auth-token tests on the lists
  of \<open>i\<close>, the attestation helpers on the entries of \<open>i\<close> and on the strings
  the builder composes, the two file paths, the git context, the answer to
  \<^verbatim>\<open>private ?? false\<close> and the rendering of the context of \<open>i\<close>.
\<close>

definition sameResponses :: "toolkit \<Rightarrow> toolkit \<Rightarrow> Inputs \<Rightarrow> bool" where
  "sameResponses tk tk' i \<longleftrightarrow>
     (\<forall>r \<in> set [''>=0.12.0'', ''>=0.8.0'', ''>=0.4.2'', ''>=0.10.0'', ''>=0.6.0''].
        buildx_versionSatisfies tk r = buildx_versionSatisfies tk' r)
     \<and> buildkit_versionSatisfies tk (builder i) ''>=0.11.0''
         = buildkit_versionSatisfies tk' (builder i) ''>=0.11.0''
     \<and> (\<forall>x \<in> set (secretEnvs i). resolveSecretEnv tk x = resolveSecretEnv tk' x)
     \<and> (\<forall>x \<in> set (secrets i). resolveSecretString tk x = resolveSecretString tk' x)
     \<and> resolveSecretString tk (''GIT_AUTH_TOKEN='' @ githubToken i)
         = resolveSecretString tk' (''GIT_AUTH_TOKEN='' @ githubToken i)
     \<and> (\<forall>x \<in> set (secretFiles i). resolveSecretFile tk x = resolveSecretFile tk' x)
     \<and> hasLocalExporter tk (outputs i) = hasLocalExporter tk' (outputs i)
     \<and> hasTarExporter tk (outputs i) = hasTarExporter tk' (outputs i)
     \<and> hasDockerExporter tk (outputs i) (load i) = hasDockerExporter tk' (outputs i) (load i)
     \<and> hasGitAuthTokenSecret tk (secrets i) = hasGitAuthTokenSecret tk' (secrets i)
     \<and> (\<forall>a \<in> set (attests i).
          hasAttestationType tk ''provenance'' a = hasAttestationType tk' ''provenance'' a
          \<and> hasAttestationType tk ''sbom'' a = hasAttestationType tk' ''sbom'' a
          \<and> resolveAttestationAttrs tk a = resolveAttestationAttrs tk' a
          \<and> resolveProvenanceAttrs tk a = resolveProvenanceAttrs tk' a)
     \<and> resolveAttestationAttrs tk (''type=provenance,'' @ provenance i)
         = resolveAttestationAttrs tk' (''type=provenance,'' @ provenance i)
     \<and> resolveAttestationAttrs tk (''type=sbom,'' @ sbom i)
         = resolveAttestationAttrs tk' (''type=sbom,'' @ sbom i)
     \<and> resolveProvenanceAttrs tk ''mode=min,inline-only=true''
         = resolveProvenanceAttrs tk' ''mode=min,inline-only=true''
     \<and> resolveProvenanceAttrs tk ''mode=max'' = resolveProvenanceAttrs tk' ''mode=max''
     \<and> getImageIDFilePath tk = getImageIDFilePath tk'
     \<and> getMetadataFilePath tk = getMetadataFilePath tk'
     \<and> gitContext tk = gitContext tk'
     \<and> (repository_private tk = Some True) = (repository_private tk' = Some True)
     \<and> handlebars_compile tk (context' i) (gitContext tk)
         = handlebars_compile tk' (context' i) (gitContext tk')"

subsection \<open>A sample toolkit\<close>

text \<open>
  Concrete collaborators, to run the builder on examples. They follow the
  toolkit in the small: a version satisfies \<^verbatim>\<open>>=a.b.c\<close> when it is not
  below \<open>a.b.c\<close>; a secret \<^verbatim>\<open>key=value\<close> is rejected when the key or the
  value is empty; an attestation or an output has the type \<open>t\<close> when one of
  its comma-separated fields is \<^verbatim>\<open>type=t\<close>; the provenance resolver appends
  a builder id; the template \<^verbatim>\<open>{{defaultContext}}\<close> renders as the git
  context.
\<close>

fun versionGE :: "nat \<times> nat \<times> nat \<Rightarrow> nat \<times> nat \<times> nat \<Rightarrow> bool" where
  "versionGE (a, b, c) (x, y, z) \<longleftrightarrow> x < a \<or> (x = a \<and> (y < b \<or> (y = b \<and> z \<le> c)))"

definition rangeFloor :: "string \<Rightarrow> (nat \<times> nat \<times> nat) option" where
  "rangeFloor r =
     (if r = ''>=0.4.2'' then Some (0, 4, 2)
      else if r = ''>=0.6.0'' then Some (0, 6, 0)
      else if r = ''>=0.8.0'' then Some (0, 8, 0)
      else if r = ''>=0.10.0'' then Some (0, 10, 0)
      else if r = ''>=0.11.0'' then Some (0, 11, 0)
      else if r = ''>=0.12.0'' then Some (0, 12, 0)
      else None)"

definition sample_satisfies :: "nat \<times> nat \<times> nat \<Rightarrow> string \<Rightarrow> bool" where
  "sample_satisfies v r = (case rangeFloor r of Some m \<Rightarrow> versionGE v m | None \<Rightarrow> False)"

fun splitOn :: "char \<Rightarrow> string \<Rightarrow> string list" where
  "splitOn c [] = [[]]"
| "splitOn c (x # xs) =
     (if x = c then [] # splitOn c xs
      else (case splitOn c xs of y # ys \<Rightarrow> (x # y) # ys | [] \<Rightarrow> [[x]]))"

definition parseKvp :: "string \<Rightarrow> (string \<times> string) option" where
  "parseKvp kvp =
     (let key = (if CHR ''='' \<in> set kvp then takeWhile (\<lambda>c. c \<noteq> CHR ''='') kvp else []);
          val = (if CHR ''='' \<in> set kvp then drop (Suc (length key)) kvp else kvp)
      in if key = [] \<or> val = [] then None else Some (key, val))"

definition sample_resolveSecretEnv :: "string \<Rightarrow> string + string" where
  "sample_resolveSecretEnv kvp =
     (case parseKvp kvp of
        None \<Rightarrow> Inl (kvp @ '' is not a valid secret'')
      | Some (k, v) \<Rightarrow> Inr (''id='' @ k @ '',env='' @ v))"

definition sample_resolveSecretString :: "string \<Rightarrow> string + string" where
  "sample_resolveSecretString kvp =
     (case parseKvp kvp of
        None \<Rightarrow> Inl (kvp @ '' is not a valid secret'')
      | Some (k, v) \<Rightarrow> Inr (''id='' @ k @ '',src=/tmp/'' @ k))"

definition sample_resolveSecretFile :: "string \<Rightarrow> string + string" where
  "sample_resolveSecretFile kvp =
     (case parseKvp kvp of
        None \<Rightarrow> Inl (kvp @ '' is not a valid secret'')
      | Some (k, v) \<Rightarrow> Inr (''id='' @ k @ '',src=/tmp/file-'' @ k))"

definition sample_hasType :: "string \<Rightarrow> string \<Rightarrow> bool" where
  "sample_hasType t attrs \<longleftrightarrow> (''type='' @ t) \<in> set (splitOn CHR '','' attrs)"

definition sample_compile :: "string \<Rightarrow> string \<Rightarrow> string" where
  "sample_compile template defaultContext =
     (if prefix ''{{defaultContext}}'' template
      then defaultContext @ drop (length ''{{defaultContext}}'') template
      else template)"

definition sampleToolkit :: "nat \<times> nat \<times> nat \<Rightarrow> nat \<times> nat \<times> nat \<Rightarrow> bool option \<Rightarrow> toolkit" where
  "sampleToolkit buildxVersion buildkitVersion priv = \<lparr>
     buildx_versionSatisfies = sample_satisfies buildxVersion,
     buildkit_versionSatisfies = (\<lambda>name. sample_satisfies buildkitVersion),
     resolveSecretEnv = sample_resolveSecretEnv,
     resolveSecretString = sample_resolveSecretString,
     resolveSecretFile = sample_resolveSecretFile,
     hasLocalExporter = (\<lambda>exporters. \<exists>e \<in> set exporters. sample_hasType ''local'' e),
     hasTarExporter = (\<lambda>exporters. \<exists>e \<in> set exporters. sample_hasType ''tar'' e),
     hasDockerExporter = (\<lambda>exporters l. l \<or> (\<exists>e \<in> set exporters. sample_hasType ''docker'' e)),
     hasGitAuthTokenSecret = (\<lambda>ss. \<exists>s \<in> set ss. prefix ''GIT_AUTH_TOKEN='' s),
     hasAttestationType = sample_hasType,
     resolveAttestationAttrs = (\<lambda>attrs. attrs),
     resolveProvenanceAttrs = (\<lambda>attrs. attrs @ '',builder-id=run''),
     getImageIDFilePath = ''/tmp/iidfile'',
     getMetadataFilePath = ''/tmp/metadata-file'',
     gitContext = ''https://github.com/docker/build-push-action.git#refs/heads/master'',
     repository_private = priv,
     handlebars_compile = sample_compile
   \<rparr>"

definition noInputs :: Inputs where
  "noInputs = \<lparr>
     addHosts = [], allow = [], annotations = [], attests = [], buildArgs = [],
     buildContexts = [], builder = [], cacheFrom = [], cacheTo = [], cgroupParent = [],
     context' = ''{{defaultContext}}'', file' = [], labels = [], load = False, network = [],
     noCache = False, noCacheFilters = [], outputs = [], platforms = [], provenance = [],
     pull = False, push = False, sbom = [], secrets = [], secretEnvs = [], secretFiles = [],
     shmSize = [], ssh = [], tags = [], target = [], ulimit = [], githubToken = []
   \<rparr>"

text \<open>The sample toolkit on a runner where the secret file of a plain secret
  cannot be written: \<^verbatim>\<open>Build.resolveSecretString\<close> throws.\<close>

definition unwritableTmpToolkit :: toolkit where
  "unwritableTmpToolkit = (sampleToolkit (0, 12, 0) (0, 11, 0) None)
     \<lparr>resolveSecretString := (\<lambda>kvp. Inl ''EACCES: permission denied'')\<rparr>"

text \<open>A configuration with repeated flags, and the build arguments it gives with
  buildx 0.12.0 and BuildKit 0.11.0 on a repository of unknown visibility.\<close>

definition cfgA :: Inputs where
  "cfgA = noInputs\<lparr>addHosts := [''docker:10.180.0.1'', ''foo:10.0.0.1''],
     buildArgs := [''MY_ARG=42''], labels := [''a=1'', ''b=2''],
     tags := [''user/app:latest'', ''user/app:1.0.0''], ssh := [''default''],
     ulimit := [''nofile=1024:1024'', ''nproc=3'']\<rparr>"

definition outA :: "string list" where
  "outA = [''build'', ''--add-host'', ''docker:10.180.0.1'', ''--add-host'',
       ''foo:10.0.0.1'', ''--build-arg'', ''MY_ARG=42'', ''--iidfile'',
       ''/tmp/iidfile'', ''--label'', ''a=1'', ''--label'', ''b=2'',
       ''--attest'', ''type=provenance,mode=max,builder-id=run'', ''--ssh'',
       ''default'', ''--tag'', ''user/app:latest'', ''--tag'',
       ''user/app:1.0.0'', ''--ulimit'', ''nofile=1024:1024'', ''--ulimit'',
       ''nproc=3'']"

section \<open>The functions compute the flag lists\<close>

lemma unpairs_simps [simp]:
  "unpairs [] = []"
  "unpairs ((f, v) # ps) = f # v # unpairs ps"
  by (simp_all add: unpairs_def)

lemma unpairs_append: "unpairs (ps @ qs) = unpairs ps @ unpairs qs"
  by (simp add: unpairs_def)

lemma flagPairs_unpairs [simp]: "flagPairs (unpairs ps) = ps"
  by (induction ps) auto

lemma flagValues_build [simp]:
  "flagValues f (b # unpairs ps) = map snd (filter (\<lambda>p. fst p = f) ps)"
  by (simp add: flagValues_def)

lemma emit_emit: "emit qs vs (emit ps ws s) = emit (ps @ qs) (ws @ vs) s"
  by (simp add: emit_def unpairs_append)

lemma emit_init: "args_push [f, v] s = emit [(f, v)] [] s"
  by (simp add: emit_def args_push_def)

lemma args_emit: "args (emit ps ws s) = args s @ unpairs ps"
  and warnings_emit: "warnings (emit ps ws s) = warnings s @ ws"
  by (simp_all add: emit_def)

lemma forEach_push: "asyncForEach xs (\<lambda>x. args_push [f, x]) = emit (map (Pair f) xs) []"
proof
  fix s
  show "asyncForEach xs (\<lambda>x. args_push [f, x]) s = emit (map (Pair f) xs) [] s"
    by (induction xs arbitrary: s) (simp_all add: emit_def args_push_def unpairs_append)
qed

lemma forEach_secret:
  "asyncForEach xs (try_secret r) = emit (map (Pair ''--secret'') (resolved r xs)) (failures r xs)"
proof
  fix s
  show "asyncForEach xs (try_secret r) s
        = emit (map (Pair ''--secret'') (resolved r xs)) (failures r xs) s"
    by (induction xs arbitrary: s)
       (simp_all add: emit_def args_push_def core_warning_def try_secret_def
          resolved_def failures_def unpairs_append split: sum.splits)
qed

lemma if_push:
  "(\<lambda>s. if c then args_push [f, v] s else s) = emit (if c then [(f, v)] else []) []"
  by (auto simp: fun_eq_iff emit_def args_push_def)

lemma gated_forEach:
  "(\<lambda>s. if c then emit ps [] s else if d then core_warning m s else s)
   = emit (if c then ps else []) (if \<not> c \<and> d then [m] else [])"
  by (auto simp: fun_eq_iff emit_def core_warning_def)

lemma attest_step:
  "(\<lambda>s. if c then args_push (unpairs ps) s else core_warning m s)
   = emit (if c then ps else []) (if \<not> c then [m] else [])"
  by (auto simp: fun_eq_iff emit_def core_warning_def args_push_def)

lemma hasAttestProvenance_loop:
  "asyncForEach xs (\<lambda>a h. if P a then True else h) b \<longleftrightarrow> b \<or> (\<exists>a \<in> set xs. P a)"
  by (induction xs arbitrary: b) auto

lemma attest_loop:
  "asyncForEach xs (\<lambda>attest s.
          if \<not> hasAttestationType tk ''provenance'' attest
             \<and> \<not> hasAttestationType tk ''sbom'' attest then
            attest_push [''--attest'', resolveAttestationAttrs tk attest] s
          else if \<not> provenanceSet s \<and> hasAttestationType tk ''provenance'' attest then
            attest_push [''--attest'', resolveProvenanceAttrs tk attest] s
          else if \<not> sbomSet s \<and> hasAttestationType tk ''sbom'' attest then
            attest_push [''--attest'', attest] s
          else s) s
   = s\<lparr>attestArgs := attestArgs s
          @ unpairs (concat (map (attestEntry tk (provenanceSet s) (sbomSet s)) xs))\<rparr>"
  by (induction xs arbitrary: s) (simp_all add: attest_push_def attestEntry_def unpairs_append)

lemma getAttestArgs_flags: "getAttestArgs tk i = unpairs (attestFlags tk i)"
  unfolding getAttestArgs_def attestFlags_def defaultProvenance_def Let_def
  by (simp add: attest_loop hasAttestProvenance_loop attest_push_def unpairs_append
        split: option.splits)

lemma getBuildArgs_flags:
  "getBuildArgs tk i ctx =
     (if gitAuthTokenWanted tk i ctx then
        (case resolveSecretString tk (''GIT_AUTH_TOKEN='' @ githubToken i) of
           Inl m \<Rightarrow> Inl m
         | Inr v \<Rightarrow> Inr (''build'' # unpairs (buildFlags tk i @ [(''--secret'', v)] @ tailFlags i)))
      else Inr (''build'' # unpairs (buildFlags tk i @ tailFlags i)),
      buildWarnings tk i)"
  unfolding getBuildArgs_def Let_def
  apply (simp only: forEach_push forEach_secret if_push gated_forEach getAttestArgs_flags
     attest_step length_greater_0_conv list.size(3))
  apply (simp only: seq.simps emit_emit emit_init args_emit warnings_emit)
  apply (cases "gitAuthTokenWanted tk i ctx";
         cases "resolveSecretString tk (''GIT_AUTH_TOKEN='' @ githubToken i)")
     apply (simp_all add: buildFlags_def tailFlags_def buildWarnings_def annotationsWarning_def
       buildContextsWarning_def attestationsWarning_def iidfileWanted_def
       split del: if_split cong: if_cong)
  done

lemma getCommonArgs_flags: "getCommonArgs tk i = commonFlags tk i"
  unfolding getCommonArgs_def commonFlags_def
  by simp


subsection \<open>What a run returns\<close>

lemma getBuildArgs_Inr:
  "fst (getBuildArgs tk i ctx) = Inr ts \<Longrightarrow>
   ts = ''build'' # unpairs (buildFlags tk i @ map (Pair ''--secret'') (gitAuthTokenFlag tk i ctx) @ tailFlags i)"
  by (auto simp: getBuildArgs_flags gitAuthTokenFlag_def split: if_splits sum.splits)

lemma filter_if: "filter P (if c then xs else ys) = (if c then filter P xs else filter P ys)"
  by simp

lemma map_if': "map g (if c then xs else ys) = (if c then map g xs else map g ys)"
  by simp

lemma filter_Pair:
  "filter (\<lambda>p. fst p = f) (map (Pair g) xs) = (if g = f then map (Pair g) xs else [])"
  by (induction xs) auto

lemma attestFlags_fst: "p \<in> set (attestFlags tk i) \<Longrightarrow> fst p = ''--attest''"
  by (auto simp: attestFlags_def attestEntry_def split: if_splits)

lemma filter_attestFlags:
  "filter (\<lambda>p. fst p = f) (attestFlags tk i) = (if f = ''--attest'' then attestFlags tk i else [])"
  by (auto simp: filter_empty_conv filter_id_conv dest: attestFlags_fst)

lemmas flag_simps = filter_if map_if' filter_Pair filter_attestFlags

lemma getBuildArgs_Inl:
  "fst (getBuildArgs tk i ctx) = Inl e \<longleftrightarrow>
   gitAuthTokenWanted tk i ctx \<and> resolveSecretString tk (''GIT_AUTH_TOKEN='' @ githubToken i) = Inl e"
  by (auto simp: getBuildArgs_flags split: if_splits sum.splits)

text \<open>\<^verbatim>\<open>getBuildArgs\<close> returns unless the synthesized git auth token is wanted
  and its resolution throws.\<close>

lemma getBuildArgs_returns:
  "(\<exists>ts. fst (getBuildArgs tk i ctx) = Inr ts) \<longleftrightarrow>
   \<not> (gitAuthTokenWanted tk i ctx
      \<and> isl (resolveSecretString tk (''GIT_AUTH_TOKEN='' @ githubToken i)))"
  by (auto simp: getBuildArgs_flags isl_def split: sum.splits)

lemma getBuildArgs_warnings: "snd (getBuildArgs tk i ctx) = buildWarnings tk i"
  by (simp add: getBuildArgs_flags)

lemma secret_values:
  "map snd (filter (\<lambda>p. fst p = ''--secret'') (buildFlags tk i @ map (Pair ''--secret'') vs @ tailFlags i))
   = resolved (resolveSecretEnv tk) (secretEnvs i)
     @ resolved (resolveSecretString tk) (secrets i)
     @ resolved (resolveSecretFile tk) (secretFiles i) @ vs"
  by (simp add: buildFlags_def tailFlags_def flag_simps comp_def split del: if_split cong: if_cong)

lemmas sample_simps = sampleToolkit_def noInputs_def sample_satisfies_def rangeFloor_def
  sample_resolveSecretEnv_def sample_resolveSecretString_def sample_resolveSecretFile_def
  parseKvp_def sample_hasType_def sample_compile_def

lemmas flags_simps = getBuildArgs_flags buildFlags_def tailFlags_def attestFlags_def
  attestEntry_def defaultProvenance_def iidfileWanted_def gitAuthTokenWanted_def
  buildWarnings_def resolved_def failures_def commonFlags_def



lemma resolved_cong:
  "(\<And>x. x \<in> set xs \<Longrightarrow> r x = r' x) \<Longrightarrow> resolved r xs = resolved r' xs"
  unfolding resolved_def by (induction xs) auto

lemma failures_cong:
  "(\<And>x. x \<in> set xs \<Longrightarrow> r x = r' x) \<Longrightarrow> failures r xs = failures r' xs"
  unfolding failures_def by (induction xs) auto

lemma concat_map_cong:
  "(\<And>x. x \<in> set xs \<Longrightarrow> f x = g x) \<Longrightarrow> concat (map f xs) = concat (map g xs)"
  by (induction xs) auto




lemma sameD:
  assumes "sameResponses tk tk' i"
  shows "buildx_versionSatisfies tk ''>=0.12.0'' = buildx_versionSatisfies tk' ''>=0.12.0''"
    and "buildx_versionSatisfies tk ''>=0.8.0'' = buildx_versionSatisfies tk' ''>=0.8.0''"
    and "buildx_versionSatisfies tk ''>=0.4.2'' = buildx_versionSatisfies tk' ''>=0.4.2''"
    and "buildx_versionSatisfies tk ''>=0.10.0'' = buildx_versionSatisfies tk' ''>=0.10.0''"
    and "buildx_versionSatisfies tk ''>=0.6.0'' = buildx_versionSatisfies tk' ''>=0.6.0''"
    and "buildkit_versionSatisfies tk (builder i) ''>=0.11.0''
         = buildkit_versionSatisfies tk' (builder i) ''>=0.11.0''"
    and "\<And>x. x \<in> set (secretEnvs i) \<Longrightarrow> resolveSecretEnv tk x = resolveSecretEnv tk' x"
    and "\<And>x. x \<in> set (secrets i) \<Longrightarrow> resolveSecretString tk x = resolveSecretString tk' x"
    and "resolveSecretString tk (''GIT_AUTH_TOKEN='' @ githubToken i)
         = resolveSecretString tk' (''GIT_AUTH_TOKEN='' @ githubToken i)"
    and "\<And>x. x \<in> set (secretFiles i) \<Longrightarrow> resolveSecretFile tk x = resolveSecretFile tk' x"
    and "hasLocalExporter tk (outputs i) = hasLocalExporter tk' (outputs i)"
    and "hasTarExporter tk (outputs i) = hasTarExporter tk' (outputs i)"
    and "hasDockerExporter tk (outputs i) (load i) = hasDockerExporter tk' (outputs i) (load i)"
    and "hasGitAuthTokenSecret tk (secrets i) = hasGitAuthTokenSecret tk' (secrets i)"
    and "\<And>a. a \<in> set (attests i) \<Longrightarrow>
          hasAttestationType tk ''provenance'' a = hasAttestationType tk' ''provenance'' a"
    and "\<And>a. a \<in> set (attests i) \<Longrightarrow>
          hasAttestationType tk ''sbom'' a = hasAttestationType tk' ''sbom'' a"
    and "\<And>a. a \<in> set (attests i) \<Longrightarrow>
          resolveAttestationAttrs tk a = resolveAttestationAttrs tk' a"
    and "\<And>a. a \<in> set (attests i) \<Longrightarrow>
          resolveProvenanceAttrs tk a = resolveProvenanceAttrs tk' a"
    and "resolveAttestationAttrs tk (''type=provenance,'' @ provenance i)
         = resolveAttestationAttrs tk' (''type=provenance,'' @ provenance i)"
    and "resolveAttestationAttrs tk (''type=sbom,'' @ sbom i)
         = resolveAttestationAttrs tk' (''type=sbom,'' @ sbom i)"
    and "resolveProvenanceAttrs tk ''mode=min,inline-only=true''
         = resolveProvenanceAttrs tk' ''mode=min,inline-only=true''"
    and "resolveProvenanceAttrs tk ''mode=max'' = resolveProvenanceAttrs tk' ''mode=max''"
    and "getImageIDFilePath tk = getImageIDFilePath tk'"
    and "getMetadataFilePath tk = getMetadataFilePath tk'"
    and "gitContext tk = gitContext tk'"
    and "(repository_private tk = Some True) = (repository_private tk' = Some True)"
    and "handlebars_compile tk (context' i) (gitContext tk)
         = handlebars_compile tk' (context' i) (gitContext tk')"
  using assms unfolding sameResponses_def by (elim conjE, (simp; fail))+

section \<open>Properties of the builder\<close>

text \<open>
  C7. Repeated flags keep count and order. Whenever \<^verbatim>\<open>getBuildArgs\<close>
  returns (\<open>getBuildArgs_returns\<close> says when), its tokens are the sub-command followed by flag and value pairs, and
  for each of \<^verbatim>\<open>--add-host\<close>, \<^verbatim>\<open>--build-arg\<close>, \<^verbatim>\<open>--label\<close>,
  \<^verbatim>\<open>--tag\<close>, \<^verbatim>\<open>--ssh\<close> and \<^verbatim>\<open>--ulimit\<close> the values given to the
  flag are exactly the entries of the input list, in the order of the input: one
  flag token and one value token per entry.
\<close>

theorem repeated_flags_keep_order:
  assumes "fst (getBuildArgs tk i ctx) = Inr ts"
  shows "ts = ''build'' # unpairs (flagPairs (tl ts))
    \<and> flagValues ''--add-host'' ts = addHosts i
    \<and> flagValues ''--build-arg'' ts = buildArgs i
    \<and> flagValues ''--label'' ts = labels i
    \<and> flagValues ''--tag'' ts = tags i
    \<and> flagValues ''--ssh'' ts = ssh i
    \<and> flagValues ''--ulimit'' ts = ulimit i"
proof -
  note ts = getBuildArgs_Inr [OF assms]
  have "ts = ''build'' # unpairs (flagPairs (tl ts))"
    by (subst (2) ts, subst ts) simp
  moreover have "flagValues ''--add-host'' ts = addHosts i"
    unfolding ts by (simp add: buildFlags_def tailFlags_def flag_simps comp_def split del: if_split cong: if_cong)
  moreover have "flagValues ''--build-arg'' ts = buildArgs i"
    unfolding ts by (simp add: buildFlags_def tailFlags_def flag_simps comp_def split del: if_split cong: if_cong)
  moreover have "flagValues ''--label'' ts = labels i"
    unfolding ts by (simp add: buildFlags_def tailFlags_def flag_simps comp_def split del: if_split cong: if_cong)
  moreover have "flagValues ''--tag'' ts = tags i"
    unfolding ts by (simp add: buildFlags_def tailFlags_def flag_simps comp_def split del: if_split cong: if_cong)
  moreover have "flagValues ''--ssh'' ts = ssh i"
    unfolding ts by (simp add: buildFlags_def tailFlags_def flag_simps comp_def split del: if_split cong: if_cong)
  moreover have "flagValues ''--ulimit'' ts = ulimit i"
    unfolding ts by (simp add: buildFlags_def tailFlags_def flag_simps comp_def split del: if_split cong: if_cong)
  ultimately show ?thesis by blast
qed

theorem repeated_flags_keep_order_witness:
  "fst (getBuildArgs (sampleToolkit (0, 12, 0) (0, 11, 0) None) cfgA ''.'') = Inr outA
   \<and> outA = ''build'' # unpairs (flagPairs (tl outA))
   \<and> flagValues ''--add-host'' outA = [''docker:10.180.0.1'', ''foo:10.0.0.1'']
   \<and> flagValues ''--build-arg'' outA = [''MY_ARG=42'']
   \<and> flagValues ''--label'' outA = [''a=1'', ''b=2'']
   \<and> flagValues ''--tag'' outA = [''user/app:latest'', ''user/app:1.0.0'']
   \<and> flagValues ''--ssh'' outA = [''default'']
   \<and> flagValues ''--ulimit'' outA = [''nofile=1024:1024'', ''nproc=3'']"
proof -
  have run: "fst (getBuildArgs (sampleToolkit (0, 12, 0) (0, 11, 0) None) cfgA ''.'') = Inr outA"
    by (simp add: flags_simps sample_simps cfgA_def outA_def)
  have cfg: "addHosts cfgA = [''docker:10.180.0.1'', ''foo:10.0.0.1'']"
    "buildArgs cfgA = [''MY_ARG=42'']" "labels cfgA = [''a=1'', ''b=2'']"
    "tags cfgA = [''user/app:latest'', ''user/app:1.0.0'']" "ssh cfgA = [''default'']"
    "ulimit cfgA = [''nofile=1024:1024'', ''nproc=3'']"
    by (simp_all add: cfgA_def noInputs_def)
  show ?thesis
    using run repeated_flags_keep_order [OF run] unfolding cfg by blast
qed


text \<open>
  C3. The image-ID file. Whenever \<^verbatim>\<open>getBuildArgs\<close> returns, the flag
  \<^verbatim>\<open>--iidfile\<close> is given once, with \<^verbatim>\<open>Build.getImageIDFilePath()\<close>,
  when the outputs have neither a local nor a tar exporter and the platform list
  is empty or buildx satisfies \<^verbatim>\<open>>=0.4.2\<close>; in every other case it is not
  given at all. So outputs with a local exporter never get the flag, whatever the
  version, and empty outputs with no platforms always get it (the toolkit finding
  no local and no tar exporter among no outputs).
\<close>

theorem iidfile_decision:
  assumes "fst (getBuildArgs tk i ctx) = Inr ts"
  shows "flagValues ''--iidfile'' ts =
           (if \<not> hasLocalExporter tk (outputs i) \<and> \<not> hasTarExporter tk (outputs i)
               \<and> (platforms i = [] \<or> buildx_versionSatisfies tk ''>=0.4.2'')
            then [getImageIDFilePath tk] else [])
       \<and> (hasLocalExporter tk (outputs i) \<longrightarrow> flagValues ''--iidfile'' ts = [])
       \<and> (outputs i = [] \<and> platforms i = [] \<and> \<not> hasLocalExporter tk [] \<and> \<not> hasTarExporter tk []
            \<longrightarrow> flagValues ''--iidfile'' ts = [getImageIDFilePath tk])"
proof -
  note ts = getBuildArgs_Inr [OF assms]
  have "flagValues ''--iidfile'' ts = (if iidfileWanted tk i then [getImageIDFilePath tk] else [])"
    unfolding ts
    by (simp add: buildFlags_def tailFlags_def flag_simps comp_def split del: if_split cong: if_cong)
  then show ?thesis
    by (simp add: iidfileWanted_def)
qed

theorem iidfile_decision_witness:
  "fst (getBuildArgs (sampleToolkit (0, 12, 0) (0, 11, 0) None)
          (noInputs\<lparr>outputs := [''type=local,dest=./out'']\<rparr>) ''.'')
     = Inr [''build'', ''--output'', ''type=local,dest=./out'', ''--attest'',
            ''type=provenance,mode=max,builder-id=run'']
   \<and> hasLocalExporter (sampleToolkit (0, 12, 0) (0, 11, 0) None) [''type=local,dest=./out'']
   \<and> flagValues ''--iidfile'' [''build'', ''--output'', ''type=local,dest=./out'', ''--attest'',
            ''type=provenance,mode=max,builder-id=run''] = []
   \<and> fst (getBuildArgs (sampleToolkit (0, 4, 1) (0, 9, 0) None) noInputs ''.'')
     = Inr [''build'', ''--iidfile'', ''/tmp/iidfile'']
   \<and> flagValues ''--iidfile'' [''build'', ''--iidfile'', ''/tmp/iidfile''] = [''/tmp/iidfile'']"
proof -
  have run1: "fst (getBuildArgs (sampleToolkit (0, 12, 0) (0, 11, 0) None)
          (noInputs\<lparr>outputs := [''type=local,dest=./out'']\<rparr>) ''.'')
     = Inr [''build'', ''--output'', ''type=local,dest=./out'', ''--attest'',
            ''type=provenance,mode=max,builder-id=run'']"
    by (simp add: flags_simps sample_simps)
  have run2: "fst (getBuildArgs (sampleToolkit (0, 4, 1) (0, 9, 0) None) noInputs ''.'')
     = Inr [''build'', ''--iidfile'', ''/tmp/iidfile'']"
    by (simp add: flags_simps sample_simps)
  have loc: "hasLocalExporter (sampleToolkit (0, 12, 0) (0, 11, 0) None) [''type=local,dest=./out'']"
    by (simp add: sample_simps)
  have emp: "outputs noInputs = [] \<and> platforms noInputs = []
      \<and> \<not> hasLocalExporter (sampleToolkit (0, 4, 1) (0, 9, 0) None) []
      \<and> \<not> hasTarExporter (sampleToolkit (0, 4, 1) (0, 9, 0) None) []"
    by (simp add: sample_simps)
  have path: "getImageIDFilePath (sampleToolkit (0, 4, 1) (0, 9, 0) None) = ''/tmp/iidfile''"
    by (simp add: sample_simps)
  show ?thesis
    using run1 run2 loc emp iidfile_decision [OF run1] iidfile_decision [OF run2]
    unfolding path by (simp add: noInputs_def)
qed

text \<open>
  C6. Annotations are gated on buildx \<^verbatim>\<open>>=0.12.0\<close>. Whenever
  \<^verbatim>\<open>getBuildArgs\<close> returns: with a satisfying version the values of
  \<^verbatim>\<open>--annotation\<close> are the annotation entries in input order and the
  warnings are those of the same inputs without annotations; otherwise no
  \<^verbatim>\<open>--annotation\<close> flag is given, and the warnings are those of the same
  inputs without annotations, preceded by the one advisory warning exactly when
  the list is not empty.
\<close>

theorem annotations_gate:
  assumes "fst (getBuildArgs tk i ctx) = Inr ts"
  shows "flagValues ''--annotation'' ts =
           (if buildx_versionSatisfies tk ''>=0.12.0'' then annotations i else [])
       \<and> snd (getBuildArgs tk i ctx) =
           (if \<not> buildx_versionSatisfies tk ''>=0.12.0'' \<and> annotations i \<noteq> []
            then [annotationsWarning] else [])
           @ snd (getBuildArgs tk (i\<lparr>annotations := []\<rparr>) ctx)"
proof -
  note ts = getBuildArgs_Inr [OF assms]
  have flags: "flagValues ''--annotation'' ts
      = (if buildx_versionSatisfies tk ''>=0.12.0'' then annotations i else [])"
    unfolding ts
    by (simp add: buildFlags_def tailFlags_def flag_simps comp_def
          split del: if_split cong: if_cong)
  have warns: "buildWarnings tk i =
      (if \<not> buildx_versionSatisfies tk ''>=0.12.0'' \<and> annotations i \<noteq> []
       then [annotationsWarning] else [])
      @ buildWarnings tk (i\<lparr>annotations := []\<rparr>)"
    by (simp add: buildWarnings_def)
  show ?thesis
    using flags warns by (simp only: getBuildArgs_warnings)
qed

theorem annotations_gate_witness:
  "fst (getBuildArgs (sampleToolkit (0, 11, 9) (0, 9, 0) None)
          (noInputs\<lparr>annotations := [''org.example.a=1'', ''org.example.b=2'']\<rparr>) ''.'')
     = Inr [''build'', ''--iidfile'', ''/tmp/iidfile'']
   \<and> flagValues ''--annotation'' [''build'', ''--iidfile'', ''/tmp/iidfile''] = []
   \<and> snd (getBuildArgs (sampleToolkit (0, 11, 9) (0, 9, 0) None)
          (noInputs\<lparr>annotations := [''org.example.a=1'', ''org.example.b=2'']\<rparr>) ''.'')
     = [annotationsWarning]
   \<and> fst (getBuildArgs (sampleToolkit (0, 12, 0) (0, 9, 0) None)
          (noInputs\<lparr>annotations := [''org.example.a=1'', ''org.example.b=2'']\<rparr>) ''.'')
     = Inr [''build'', ''--annotation'', ''org.example.a=1'', ''--annotation'', ''org.example.b=2'',
            ''--iidfile'', ''/tmp/iidfile'']
   \<and> flagValues ''--annotation''
         [''build'', ''--annotation'', ''org.example.a=1'', ''--annotation'', ''org.example.b=2'',
          ''--iidfile'', ''/tmp/iidfile'']
     = [''org.example.a=1'', ''org.example.b=2'']
   \<and> snd (getBuildArgs (sampleToolkit (0, 12, 0) (0, 9, 0) None)
          (noInputs\<lparr>annotations := [''org.example.a=1'', ''org.example.b=2'']\<rparr>) ''.'')
     = []"
proof -
  have old: "fst (getBuildArgs (sampleToolkit (0, 11, 9) (0, 9, 0) None)
          (noInputs\<lparr>annotations := [''org.example.a=1'', ''org.example.b=2'']\<rparr>) ''.'')
     = Inr [''build'', ''--iidfile'', ''/tmp/iidfile'']"
    by (simp add: flags_simps sample_simps)
  have new: "fst (getBuildArgs (sampleToolkit (0, 12, 0) (0, 9, 0) None)
          (noInputs\<lparr>annotations := [''org.example.a=1'', ''org.example.b=2'']\<rparr>) ''.'')
     = Inr [''build'', ''--annotation'', ''org.example.a=1'', ''--annotation'', ''org.example.b=2'',
            ''--iidfile'', ''/tmp/iidfile'']"
    by (simp add: flags_simps sample_simps)
  have rest_old: "snd (getBuildArgs (sampleToolkit (0, 11, 9) (0, 9, 0) None)
      (noInputs\<lparr>annotations := [''org.example.a=1'', ''org.example.b=2''], annotations := []\<rparr>) ''.'') = []"
    by (simp add: flags_simps sample_simps)
  have rest_new: "snd (getBuildArgs (sampleToolkit (0, 12, 0) (0, 9, 0) None)
      (noInputs\<lparr>annotations := [''org.example.a=1'', ''org.example.b=2''], annotations := []\<rparr>) ''.'') = []"
    by (simp add: flags_simps sample_simps)
  have sat: "\<not> buildx_versionSatisfies (sampleToolkit (0, 11, 9) (0, 9, 0) None) ''>=0.12.0''"
    "buildx_versionSatisfies (sampleToolkit (0, 12, 0) (0, 9, 0) None) ''>=0.12.0''"
    by (simp_all add: sample_simps)
  show ?thesis
    using old new annotations_gate [OF old] annotations_gate [OF new] sat
    unfolding rest_old rest_new by (simp add: noInputs_def)
qed

text \<open>
  C5. The synthesized git auth token. Whenever \<^verbatim>\<open>getBuildArgs\<close> returns:
  if \<^verbatim>\<open>githubToken\<close> is not empty, \<^verbatim>\<open>Build.hasGitAuthTokenSecret\<close>
  rejects the plain secrets and the context starts with the default git context,
  then the resolved \<^verbatim>\<open>GIT_AUTH_TOKEN=<token>\<close> is one more \<^verbatim>\<open>--secret\<close>,
  after those of the three secret lists; in every other case the
  \<^verbatim>\<open>--secret\<close> flags are those of the three lists alone. A context equal to
  the default git context starts with it; a context that does not start with it
  never gets the flag.
\<close>

theorem git_auth_token_injection:
  assumes "fst (getBuildArgs tk i ctx) = Inr ts"
  shows "(githubToken i \<noteq> [] \<and> \<not> hasGitAuthTokenSecret tk (secrets i) \<and> prefix (gitContext tk) ctx
            \<longrightarrow> (\<exists>v. resolveSecretString tk (''GIT_AUTH_TOKEN='' @ githubToken i) = Inr v
                    \<and> flagValues ''--secret'' ts =
                        resolved (resolveSecretEnv tk) (secretEnvs i)
                        @ resolved (resolveSecretString tk) (secrets i)
                        @ resolved (resolveSecretFile tk) (secretFiles i) @ [v]))
       \<and> (\<not> (githubToken i \<noteq> [] \<and> \<not> hasGitAuthTokenSecret tk (secrets i) \<and> prefix (gitContext tk) ctx)
            \<longrightarrow> flagValues ''--secret'' ts =
                  resolved (resolveSecretEnv tk) (secretEnvs i)
                  @ resolved (resolveSecretString tk) (secrets i)
                  @ resolved (resolveSecretFile tk) (secretFiles i))
       \<and> (ctx = gitContext tk \<longrightarrow> prefix (gitContext tk) ctx)"
proof -
  note ts = getBuildArgs_Inr [OF assms]
  have vals: "flagValues ''--secret'' ts =
      resolved (resolveSecretEnv tk) (secretEnvs i)
      @ resolved (resolveSecretString tk) (secrets i)
      @ resolved (resolveSecretFile tk) (secretFiles i) @ gitAuthTokenFlag tk i ctx"
    unfolding ts by (simp only: flagValues_build secret_values)
  have "\<exists>v. resolveSecretString tk (''GIT_AUTH_TOKEN='' @ githubToken i) = Inr v
            \<and> gitAuthTokenFlag tk i ctx = [v]"
    if "gitAuthTokenWanted tk i ctx"
    using that assms by (auto simp: getBuildArgs_flags gitAuthTokenFlag_def split: sum.splits)
  moreover have "gitAuthTokenFlag tk i ctx = []" if "\<not> gitAuthTokenWanted tk i ctx"
    using that by (simp add: gitAuthTokenFlag_def)
  ultimately show ?thesis
    unfolding vals gitAuthTokenWanted_def by auto
qed

theorem git_auth_token_injection_witness:
  "fst (getBuildArgs (sampleToolkit (0, 4, 1) (0, 9, 0) None)
          (noInputs\<lparr>githubToken := ''ghs_token''\<rparr>)
          ''https://github.com/docker/build-push-action.git#refs/heads/master'')
     = Inr [''build'', ''--iidfile'', ''/tmp/iidfile'', ''--secret'',
            ''id=GIT_AUTH_TOKEN,src=/tmp/GIT_AUTH_TOKEN'']
   \<and> flagValues ''--secret'' [''build'', ''--iidfile'', ''/tmp/iidfile'', ''--secret'',
            ''id=GIT_AUTH_TOKEN,src=/tmp/GIT_AUTH_TOKEN'']
     = [''id=GIT_AUTH_TOKEN,src=/tmp/GIT_AUTH_TOKEN'']
   \<and> fst (getBuildArgs (sampleToolkit (0, 4, 1) (0, 9, 0) None)
          (noInputs\<lparr>githubToken := ''ghs_token''\<rparr>) ''https://example.org/other.git'')
     = Inr [''build'', ''--iidfile'', ''/tmp/iidfile'']
   \<and> flagValues ''--secret'' [''build'', ''--iidfile'', ''/tmp/iidfile''] = []"
proof -
  have same: "fst (getBuildArgs (sampleToolkit (0, 4, 1) (0, 9, 0) None)
          (noInputs\<lparr>githubToken := ''ghs_token''\<rparr>)
          ''https://github.com/docker/build-push-action.git#refs/heads/master'')
     = Inr [''build'', ''--iidfile'', ''/tmp/iidfile'', ''--secret'',
            ''id=GIT_AUTH_TOKEN,src=/tmp/GIT_AUTH_TOKEN'']"
    by (simp add: flags_simps sample_simps)
  have other: "fst (getBuildArgs (sampleToolkit (0, 4, 1) (0, 9, 0) None)
          (noInputs\<lparr>githubToken := ''ghs_token''\<rparr>) ''https://example.org/other.git'')
     = Inr [''build'', ''--iidfile'', ''/tmp/iidfile'']"
    by (simp add: flags_simps sample_simps)
  have wanted: "githubToken (noInputs\<lparr>githubToken := ''ghs_token''\<rparr>) \<noteq> []
      \<and> \<not> hasGitAuthTokenSecret (sampleToolkit (0, 4, 1) (0, 9, 0) None)
            (secrets (noInputs\<lparr>githubToken := ''ghs_token''\<rparr>))
      \<and> prefix (gitContext (sampleToolkit (0, 4, 1) (0, 9, 0) None))
           ''https://github.com/docker/build-push-action.git#refs/heads/master''"
    by (simp add: sample_simps)
  have elsewhere: "\<not> prefix (gitContext (sampleToolkit (0, 4, 1) (0, 9, 0) None))
           ''https://example.org/other.git''"
    by (simp add: sample_simps)
  have lists: "resolved (resolveSecretEnv (sampleToolkit (0, 4, 1) (0, 9, 0) None))
                 (secretEnvs (noInputs\<lparr>githubToken := ''ghs_token''\<rparr>)) = []"
    "resolved (resolveSecretString (sampleToolkit (0, 4, 1) (0, 9, 0) None))
                 (secrets (noInputs\<lparr>githubToken := ''ghs_token''\<rparr>)) = []"
    "resolved (resolveSecretFile (sampleToolkit (0, 4, 1) (0, 9, 0) None))
                 (secretFiles (noInputs\<lparr>githubToken := ''ghs_token''\<rparr>)) = []"
    by (simp_all add: sample_simps resolved_def)
  have tok: "resolveSecretString (sampleToolkit (0, 4, 1) (0, 9, 0) None)
      (''GIT_AUTH_TOKEN='' @ githubToken (noInputs\<lparr>githubToken := ''ghs_token''\<rparr>))
      = Inr ''id=GIT_AUTH_TOKEN,src=/tmp/GIT_AUTH_TOKEN''"
    by (simp add: sample_simps)
  show ?thesis
    using same other wanted elsewhere
      git_auth_token_injection [OF same] git_auth_token_injection [OF other]
    unfolding lists tok by auto
qed

text \<open>
  The three secret loops. \<^verbatim>\<open>getBuildArgs\<close> throws exactly when the
  resolution of the synthesized git auth token, the one resolver call outside
  \<^verbatim>\<open>try\<close>/\<^verbatim>\<open>catch\<close>, throws. When it returns, the \<^verbatim>\<open>--secret\<close> values are the
  resolved entries of \<^verbatim>\<open>secretEnvs\<close>, \<^verbatim>\<open>secrets\<close> and
  \<^verbatim>\<open>secretFiles\<close>, in order, followed by the synthesized token if there is
  one. The warnings are the advisory messages of the version gates and, in their
  places, the messages of the failed entries. Each list gives as many flags as
  entries that resolve and as many warnings as entries that fail; two entries of
  which only the second resolves give one flag and one warning.
\<close>

lemma secret_loops:
  "(fst (getBuildArgs tk i ctx) = Inl e \<longleftrightarrow>
      gitAuthTokenWanted tk i ctx
      \<and> resolveSecretString tk (''GIT_AUTH_TOKEN='' @ githubToken i) = Inl e)
   \<and> (fst (getBuildArgs tk i ctx) = Inr ts \<longrightarrow>
        flagValues ''--secret'' ts =
          resolved (resolveSecretEnv tk) (secretEnvs i)
          @ resolved (resolveSecretString tk) (secrets i)
          @ resolved (resolveSecretFile tk) (secretFiles i)
          @ gitAuthTokenFlag tk i ctx)
   \<and> snd (getBuildArgs tk i ctx) =
        (if \<not> buildx_versionSatisfies tk ''>=0.12.0'' \<and> annotations i \<noteq> []
         then [annotationsWarning] else [])
        @ (if \<not> buildx_versionSatisfies tk ''>=0.8.0'' \<and> buildContexts i \<noteq> []
           then [buildContextsWarning] else [])
        @ failures (resolveSecretEnv tk) (secretEnvs i)
        @ (if \<not> buildx_versionSatisfies tk ''>=0.10.0'' then [attestationsWarning] else [])
        @ failures (resolveSecretString tk) (secrets i)
        @ failures (resolveSecretFile tk) (secretFiles i)
   \<and> (\<forall>r \<in> {resolveSecretEnv tk, resolveSecretString tk, resolveSecretFile tk}. \<forall>xs.
        length (resolved r xs) = length (filter (\<lambda>x. isl (r x) = False) xs)
        \<and> length (failures r xs) = length (filter (\<lambda>x. isl (r x)) xs))
   \<and> (\<forall>a b m v. resolveSecretEnv tk a = Inl m \<and> resolveSecretEnv tk b = Inr v \<longrightarrow>
        resolved (resolveSecretEnv tk) [a, b] = [v] \<and> failures (resolveSecretEnv tk) [a, b] = [m])"
proof -
  have len: "length (resolved r xs) = length (filter (\<lambda>x. isl (r x) = False) xs)
             \<and> length (failures r xs) = length (filter (\<lambda>x. isl (r x)) xs)" for r xs
    by (induction xs) (auto simp: resolved_def failures_def split: sum.splits)
  have "flagValues ''--secret'' ts =
          resolved (resolveSecretEnv tk) (secretEnvs i)
          @ resolved (resolveSecretString tk) (secrets i)
          @ resolved (resolveSecretFile tk) (secretFiles i)
          @ gitAuthTokenFlag tk i ctx"
    if "fst (getBuildArgs tk i ctx) = Inr ts"
    unfolding getBuildArgs_Inr [OF that] by (simp only: flagValues_build secret_values)
  moreover have "\<forall>a b m v. resolveSecretEnv tk a = Inl m \<and> resolveSecretEnv tk b = Inr v \<longrightarrow>
        resolved (resolveSecretEnv tk) [a, b] = [v] \<and> failures (resolveSecretEnv tk) [a, b] = [m]"
    by (simp add: resolved_def failures_def)
  ultimately show ?thesis
    using len by (simp add: getBuildArgs_Inl getBuildArgs_warnings buildWarnings_def)
qed

text \<open>
  C4. A secret that fails to resolve must cost its own flag and a warning, never
  the build: the three loops catch the error of each entry. The resolution of the
  synthesized git auth token (line 173) calls the same
  \<^verbatim>\<open>Build.resolveSecretString\<close> without \<^verbatim>\<open>try\<close>/\<^verbatim>\<open>catch\<close>. Where
  that resolver throws, a plain secret entry is skipped with a warning and the
  builder returns, but with a \<^verbatim>\<open>githubToken\<close> and the default context the
  same error leaves \<^verbatim>\<open>getArgs\<close>: no token list is returned, and the flag
  of the secret environment entry that did resolve is lost with it.
\<close>

theorem unguarded_token_resolution_aborts:
  "resolveSecretEnv unwritableTmpToolkit ''OK=ENVVAR'' = Inr ''id=OK,env=ENVVAR''
   \<and> resolveSecretString unwritableTmpToolkit ''MYSECRET=foo'' = Inl ''EACCES: permission denied''
   \<and> getArgs unwritableTmpToolkit
        (noInputs\<lparr>secretEnvs := [''OK=ENVVAR''], secrets := [''MYSECRET=foo'']\<rparr>)
     = (Inr [''build'', ''--secret'', ''id=OK,env=ENVVAR'', ''--iidfile'', ''/tmp/iidfile'',
             ''--attest'', ''type=provenance,mode=max,builder-id=run'',
             ''--metadata-file'', ''/tmp/metadata-file'',
             ''https://github.com/docker/build-push-action.git#refs/heads/master''],
        [''EACCES: permission denied''])
   \<and> resolveSecretString unwritableTmpToolkit ''GIT_AUTH_TOKEN=ghs_token''
     = Inl ''EACCES: permission denied''
   \<and> getArgs unwritableTmpToolkit
        (noInputs\<lparr>secretEnvs := [''OK=ENVVAR''], githubToken := ''ghs_token''\<rparr>)
     = (Inl ''EACCES: permission denied'', [])"
  by (simp add: getArgs_def getCommonArgs_flags flags_simps sample_simps unwritableTmpToolkit_def)

text \<open>
  C10. The duplicate check reads the plain secrets only. If \<^verbatim>\<open>githubToken\<close>
  is not empty, \<^verbatim>\<open>Build.hasGitAuthTokenSecret\<close> rejects the list
  \<^verbatim>\<open>secrets\<close>, the context starts with the default git context and the
  synthesized secret resolves, then \<^verbatim>\<open>getBuildArgs\<close> returns and the
  synthesized secret follows the resolved entries of all three lists, whatever
  \<^verbatim>\<open>secretEnvs\<close> and \<^verbatim>\<open>secretFiles\<close> hold. With the sample toolkit and
  \<^verbatim>\<open>GIT_AUTH_TOKEN=GH_PAT\<close> as a secret environment entry, the output has two
  \<^verbatim>\<open>--secret\<close> flags with the id \<^verbatim>\<open>GIT_AUTH_TOKEN\<close>.
\<close>

theorem duplicate_check_reads_plain_secrets_only:
  assumes "githubToken i \<noteq> []"
    and "\<not> hasGitAuthTokenSecret tk (secrets i)"
    and "prefix (gitContext tk) ctx"
    and "resolveSecretString tk (''GIT_AUTH_TOKEN='' @ githubToken i) = Inr v"
  shows "\<exists>ts. fst (getBuildArgs tk i ctx) = Inr ts
           \<and> flagValues ''--secret'' ts =
               resolved (resolveSecretEnv tk) (secretEnvs i)
               @ resolved (resolveSecretString tk) (secrets i)
               @ resolved (resolveSecretFile tk) (secretFiles i) @ [v]"
proof -
  have wanted: "gitAuthTokenWanted tk i ctx"
    using assms by (simp add: gitAuthTokenWanted_def)
  then have run: "fst (getBuildArgs tk i ctx)
      = Inr (''build'' # unpairs (buildFlags tk i @ map (Pair ''--secret'') [v] @ tailFlags i))"
    using assms(4) by (simp add: getBuildArgs_flags)
  show ?thesis
    unfolding run by (simp only: flagValues_build secret_values sum.inject simp_thms ex_simps)
qed

theorem duplicate_check_reads_plain_secrets_only_witness:
  "githubToken (noInputs\<lparr>secretEnvs := [''GIT_AUTH_TOKEN=GH_PAT''], githubToken := ''ghs_token''\<rparr>) \<noteq> []
   \<and> \<not> hasGitAuthTokenSecret (sampleToolkit (0, 4, 1) (0, 9, 0) None)
        (secrets (noInputs\<lparr>secretEnvs := [''GIT_AUTH_TOKEN=GH_PAT''], githubToken := ''ghs_token''\<rparr>))
   \<and> fst (getBuildArgs (sampleToolkit (0, 4, 1) (0, 9, 0) None)
          (noInputs\<lparr>secretEnvs := [''GIT_AUTH_TOKEN=GH_PAT''], githubToken := ''ghs_token''\<rparr>)
          ''https://github.com/docker/build-push-action.git#refs/heads/master'')
     = Inr [''build'', ''--secret'', ''id=GIT_AUTH_TOKEN,env=GH_PAT'', ''--iidfile'', ''/tmp/iidfile'',
            ''--secret'', ''id=GIT_AUTH_TOKEN,src=/tmp/GIT_AUTH_TOKEN'']
   \<and> flagValues ''--secret''
        [''build'', ''--secret'', ''id=GIT_AUTH_TOKEN,env=GH_PAT'', ''--iidfile'', ''/tmp/iidfile'',
         ''--secret'', ''id=GIT_AUTH_TOKEN,src=/tmp/GIT_AUTH_TOKEN'']
     = [''id=GIT_AUTH_TOKEN,env=GH_PAT'', ''id=GIT_AUTH_TOKEN,src=/tmp/GIT_AUTH_TOKEN'']"
proof -
  have tok: "githubToken (noInputs\<lparr>secretEnvs := [''GIT_AUTH_TOKEN=GH_PAT''], githubToken := ''ghs_token''\<rparr>) \<noteq> []"
    by simp
  have plain: "\<not> hasGitAuthTokenSecret (sampleToolkit (0, 4, 1) (0, 9, 0) None)
        (secrets (noInputs\<lparr>secretEnvs := [''GIT_AUTH_TOKEN=GH_PAT''], githubToken := ''ghs_token''\<rparr>))"
    by (simp add: sample_simps)
  have ctx: "prefix (gitContext (sampleToolkit (0, 4, 1) (0, 9, 0) None))
      ''https://github.com/docker/build-push-action.git#refs/heads/master''"
    by (simp add: sample_simps)
  have synth: "resolveSecretString (sampleToolkit (0, 4, 1) (0, 9, 0) None)
      (''GIT_AUTH_TOKEN='' @ githubToken (noInputs\<lparr>secretEnvs := [''GIT_AUTH_TOKEN=GH_PAT''], githubToken := ''ghs_token''\<rparr>))
      = Inr ''id=GIT_AUTH_TOKEN,src=/tmp/GIT_AUTH_TOKEN''"
    by (simp add: sample_simps)
  have run: "fst (getBuildArgs (sampleToolkit (0, 4, 1) (0, 9, 0) None)
          (noInputs\<lparr>secretEnvs := [''GIT_AUTH_TOKEN=GH_PAT''], githubToken := ''ghs_token''\<rparr>)
          ''https://github.com/docker/build-push-action.git#refs/heads/master'')
     = Inr [''build'', ''--secret'', ''id=GIT_AUTH_TOKEN,env=GH_PAT'', ''--iidfile'', ''/tmp/iidfile'',
            ''--secret'', ''id=GIT_AUTH_TOKEN,src=/tmp/GIT_AUTH_TOKEN'']"
    by (simp add: flags_simps sample_simps)
  have lists: "resolved (resolveSecretEnv (sampleToolkit (0, 4, 1) (0, 9, 0) None))
        (secretEnvs (noInputs\<lparr>secretEnvs := [''GIT_AUTH_TOKEN=GH_PAT''], githubToken := ''ghs_token''\<rparr>))
        = [''id=GIT_AUTH_TOKEN,env=GH_PAT'']"
     "resolved (resolveSecretString (sampleToolkit (0, 4, 1) (0, 9, 0) None))
        (secrets (noInputs\<lparr>secretEnvs := [''GIT_AUTH_TOKEN=GH_PAT''], githubToken := ''ghs_token''\<rparr>)) = []"
     "resolved (resolveSecretFile (sampleToolkit (0, 4, 1) (0, 9, 0) None))
        (secretFiles (noInputs\<lparr>secretEnvs := [''GIT_AUTH_TOKEN=GH_PAT''], githubToken := ''ghs_token''\<rparr>)) = []"
    by (simp_all add: sample_simps resolved_def)
  show ?thesis
    using tok plain run duplicate_check_reads_plain_secrets_only [OF tok plain ctx synth]
    unfolding lists by auto
qed

text \<open>
  C9. The shape of the output of \<^verbatim>\<open>getArgs\<close>, where \<open>ctx\<close> is the
  handlebars rendering of \<^verbatim>\<open>inputs.context\<close> with \<^verbatim>\<open>defaultContext\<close>
  bound to the default git context. \<^verbatim>\<open>getArgs\<close> throws exactly when
  \<^verbatim>\<open>getBuildArgs\<close> does. Otherwise its tokens are those of
  \<^verbatim>\<open>getBuildArgs\<close> (the sub-command \<^verbatim>\<open>build\<close> and flag pairs), then
  those of \<^verbatim>\<open>getCommonArgs\<close> (builder, load, metadata-file, network,
  no-cache, pull, push, in this order, each present under its condition), then
  \<open>ctx\<close>: the first token is \<^verbatim>\<open>build\<close> and the last is \<open>ctx\<close>. The
  warnings are those of \<^verbatim>\<open>getBuildArgs\<close>.
\<close>

theorem output_structure:
  assumes "ctx = handlebars_compile tk (context' i) (gitContext tk)"
  shows "(fst (getArgs tk i) = Inl e \<longleftrightarrow> fst (getBuildArgs tk i ctx) = Inl e)
       \<and> (fst (getBuildArgs tk i ctx) = Inr b \<longrightarrow>
            fst (getArgs tk i) = Inr (b @ getCommonArgs tk i @ [ctx])
            \<and> b = ''build'' # unpairs (flagPairs (tl b))
            \<and> hd (b @ getCommonArgs tk i @ [ctx]) = ''build''
            \<and> last (b @ getCommonArgs tk i @ [ctx]) = ctx)
       \<and> getCommonArgs tk i =
            (if builder i \<noteq> [] then [''--builder'', builder i] else [])
            @ (if load i then [''--load''] else [])
            @ (if buildx_versionSatisfies tk ''>=0.6.0''
               then [''--metadata-file'', getMetadataFilePath tk] else [])
            @ (if network i \<noteq> [] then [''--network'', network i] else [])
            @ (if noCache i then [''--no-cache''] else [])
            @ (if pull i then [''--pull''] else [])
            @ (if push i then [''--push''] else [])
       \<and> snd (getArgs tk i) = snd (getBuildArgs tk i ctx)"
proof -
  have abort: "fst (getArgs tk i) = Inl e \<longleftrightarrow> fst (getBuildArgs tk i ctx) = Inl e"
    unfolding getArgs_def Let_def assms
    by (cases "getBuildArgs tk i (handlebars_compile tk (context' i) (gitContext tk))")
       (auto split: sum.splits)
  have warn: "snd (getArgs tk i) = snd (getBuildArgs tk i ctx)"
    unfolding getArgs_def Let_def assms
    by (cases "getBuildArgs tk i (handlebars_compile tk (context' i) (gitContext tk))")
       (auto split: sum.splits)
  have ret: "fst (getArgs tk i) = Inr (b @ getCommonArgs tk i @ [ctx])
       \<and> b = ''build'' # unpairs (flagPairs (tl b))
       \<and> hd (b @ getCommonArgs tk i @ [ctx]) = ''build''
       \<and> last (b @ getCommonArgs tk i @ [ctx]) = ctx"
    if b: "fst (getBuildArgs tk i ctx) = Inr b"
  proof -
    note shape = getBuildArgs_Inr [OF b]
    have "b = ''build'' # unpairs (flagPairs (tl b))"
      by (subst (2) shape, subst shape) simp
    moreover have "hd (b @ getCommonArgs tk i @ [ctx]) = ''build''"
      by (subst shape) simp
    moreover have "fst (getArgs tk i) = Inr (b @ getCommonArgs tk i @ [ctx])"
      using b unfolding getArgs_def Let_def assms
      by (cases "getBuildArgs tk i (handlebars_compile tk (context' i) (gitContext tk))")
         (auto split: sum.splits)
    ultimately show ?thesis by simp
  qed
  have common: "getCommonArgs tk i =
            (if builder i \<noteq> [] then [''--builder'', builder i] else [])
            @ (if load i then [''--load''] else [])
            @ (if buildx_versionSatisfies tk ''>=0.6.0''
               then [''--metadata-file'', getMetadataFilePath tk] else [])
            @ (if network i \<noteq> [] then [''--network'', network i] else [])
            @ (if noCache i then [''--no-cache''] else [])
            @ (if pull i then [''--pull''] else [])
            @ (if push i then [''--push''] else [])"
    by (simp only: getCommonArgs_flags commonFlags_def)
  from abort warn ret common show ?thesis
    by blast
qed

theorem output_structure_witness:
  "''https://github.com/docker/build-push-action.git#refs/heads/master:docker''
     = handlebars_compile (sampleToolkit (0, 12, 0) (0, 11, 0) None)
         (context' (cfgA\<lparr>context' := ''{{defaultContext}}:docker'', builder := ''mybuilder'', push := True\<rparr>))
         (gitContext (sampleToolkit (0, 12, 0) (0, 11, 0) None))
   \<and> fst (getBuildArgs (sampleToolkit (0, 12, 0) (0, 11, 0) None)
        (cfgA\<lparr>context' := ''{{defaultContext}}:docker'', builder := ''mybuilder'', push := True\<rparr>)
        ''https://github.com/docker/build-push-action.git#refs/heads/master:docker'') = Inr outA
   \<and> fst (getArgs (sampleToolkit (0, 12, 0) (0, 11, 0) None)
        (cfgA\<lparr>context' := ''{{defaultContext}}:docker'', builder := ''mybuilder'', push := True\<rparr>))
     = Inr (outA @ [''--builder'', ''mybuilder'', ''--metadata-file'', ''/tmp/metadata-file'', ''--push'']
            @ [''https://github.com/docker/build-push-action.git#refs/heads/master:docker''])"
proof -
  have ctx: "''https://github.com/docker/build-push-action.git#refs/heads/master:docker''
     = handlebars_compile (sampleToolkit (0, 12, 0) (0, 11, 0) None)
         (context' (cfgA\<lparr>context' := ''{{defaultContext}}:docker'', builder := ''mybuilder'', push := True\<rparr>))
         (gitContext (sampleToolkit (0, 12, 0) (0, 11, 0) None))"
    by (simp add: sample_simps cfgA_def)
  have run: "fst (getBuildArgs (sampleToolkit (0, 12, 0) (0, 11, 0) None)
        (cfgA\<lparr>context' := ''{{defaultContext}}:docker'', builder := ''mybuilder'', push := True\<rparr>)
        ''https://github.com/docker/build-push-action.git#refs/heads/master:docker'') = Inr outA"
    by (simp add: flags_simps sample_simps cfgA_def outA_def)
  have common: "getCommonArgs (sampleToolkit (0, 12, 0) (0, 11, 0) None)
        (cfgA\<lparr>context' := ''{{defaultContext}}:docker'', builder := ''mybuilder'', push := True\<rparr>)
      = [''--builder'', ''mybuilder'', ''--metadata-file'', ''/tmp/metadata-file'', ''--push'']"
    by (simp add: getCommonArgs_flags commonFlags_def sample_simps cfgA_def)
  show ?thesis
    using ctx run output_structure [OF ctx, where b = outA and e = "''unused''"]
    unfolding common by blast
qed

text \<open>
  C8. Determinism. The builder is a function of its inputs and of the responses of
  its collaborators: two runs on the same inputs whose toolkits answer alike on
  every query the builder can make return the same result, token for token, and
  log the same warnings (or throw the same error).
\<close>

theorem same_responses_same_output:
  assumes "sameResponses tk tk' i"
  shows "getArgs tk i = getArgs tk' i"
proof -
  note same = sameD [OF assms]
  have envs: "resolved (resolveSecretEnv tk) (secretEnvs i) = resolved (resolveSecretEnv tk') (secretEnvs i)"
    "failures (resolveSecretEnv tk) (secretEnvs i) = failures (resolveSecretEnv tk') (secretEnvs i)"
    by (rule resolved_cong, erule same(7)) (rule failures_cong, erule same(7))
  have strs: "resolved (resolveSecretString tk) (secrets i) = resolved (resolveSecretString tk') (secrets i)"
    "failures (resolveSecretString tk) (secrets i) = failures (resolveSecretString tk') (secrets i)"
    by (rule resolved_cong, erule same(8)) (rule failures_cong, erule same(8))
  have files: "resolved (resolveSecretFile tk) (secretFiles i) = resolved (resolveSecretFile tk') (secretFiles i)"
    "failures (resolveSecretFile tk) (secretFiles i) = failures (resolveSecretFile tk') (secretFiles i)"
    by (rule resolved_cong, erule same(10)) (rule failures_cong, erule same(10))
  have entries: "concat (map (attestEntry tk p s) (attests i))
      = concat (map (attestEntry tk' p s) (attests i))" for p s
    by (rule concat_map_cong) (simp only: attestEntry_def same(15-18))
  have noprov: "(\<forall>a \<in> set (attests i). \<not> hasAttestationType tk ''provenance'' a)
      = (\<forall>a \<in> set (attests i). \<not> hasAttestationType tk' ''provenance'' a)"
    by (rule ball_cong [OF refl]) (simp only: same(15))
  have dflt: "defaultProvenance tk = defaultProvenance tk'"
    unfolding defaultProvenance_def same(26)
    by (cases "repository_private tk' = Some True") (simp_all add: same(21,22))
  have attest: "attestFlags tk i = attestFlags tk' i"
    unfolding attestFlags_def entries noprov dflt same(6,13,19,20) by (rule refl)
  have iid: "iidfileWanted tk i = iidfileWanted tk' i"
    unfolding iidfileWanted_def same(3,11,12) by (rule refl)
  have flags: "buildFlags tk i = buildFlags tk' i"
    unfolding buildFlags_def same(1,2,4,23) envs strs files attest iid by (rule refl)
  have warns: "buildWarnings tk i = buildWarnings tk' i"
    unfolding buildWarnings_def same(1,2,4) envs strs files by (rule refl)
  have wanted: "gitAuthTokenWanted tk i c = gitAuthTokenWanted tk' i c" for c
    unfolding gitAuthTokenWanted_def same(14,25) by (rule refl)
  have build: "getBuildArgs tk i c = getBuildArgs tk' i c" for c
    unfolding getBuildArgs_flags flags warns wanted same(9) by (rule refl)
  have common: "getCommonArgs tk i = getCommonArgs tk' i"
    unfolding getCommonArgs_flags commonFlags_def same(5,24) by (rule refl)
  show ?thesis
    unfolding getArgs_def build common same(27) by (rule refl)
qed

theorem same_responses_same_output_witness:
  "sameResponses (sampleToolkit (0, 12, 0) (0, 11, 0) None)
      (sampleToolkit (0, 13, 1) (0, 12, 5) (Some False))
      (cfgA\<lparr>secretEnvs := [''BROKEN'', ''MYSECRET=MY_ENV''], attests := [''type=sbom,generator=image'']\<rparr>)
   \<and> repository_private (sampleToolkit (0, 12, 0) (0, 11, 0) None)
       \<noteq> repository_private (sampleToolkit (0, 13, 1) (0, 12, 5) (Some False))
   \<and> getArgs (sampleToolkit (0, 12, 0) (0, 11, 0) None)
        (cfgA\<lparr>secretEnvs := [''BROKEN'', ''MYSECRET=MY_ENV''], attests := [''type=sbom,generator=image'']\<rparr>)
     = getArgs (sampleToolkit (0, 13, 1) (0, 12, 5) (Some False))
        (cfgA\<lparr>secretEnvs := [''BROKEN'', ''MYSECRET=MY_ENV''], attests := [''type=sbom,generator=image'']\<rparr>)"
proof -
  have same: "sameResponses (sampleToolkit (0, 12, 0) (0, 11, 0) None)
      (sampleToolkit (0, 13, 1) (0, 12, 5) (Some False))
      (cfgA\<lparr>secretEnvs := [''BROKEN'', ''MYSECRET=MY_ENV''], attests := [''type=sbom,generator=image'']\<rparr>)"
    by (simp add: sameResponses_def sample_simps cfgA_def)
  have differ: "repository_private (sampleToolkit (0, 12, 0) (0, 11, 0) None)
       \<noteq> repository_private (sampleToolkit (0, 13, 1) (0, 12, 5) (Some False))"
    by (simp add: sampleToolkit_def)
  show ?thesis
    using same differ same_responses_same_output [OF same] by (intro conjI)
qed

text \<open>
  The explicit inputs and the list. With an explicit \<^verbatim>\<open>provenance\<close> input,
  \<^verbatim>\<open>getAttestArgs\<close> gives first the flag of the explicit value, then the
  flag of the explicit \<^verbatim>\<open>sbom\<close> input if there is one, then the flags of the
  list: an entry of neither type is resolved and given, an entry of type sbom is
  given as it is when there is no explicit \<^verbatim>\<open>sbom\<close>, and nothing else is
  given; no entry goes through the provenance resolver. So an entry of type
  provenance is skipped unless it is also of type sbom and there is no explicit
  \<^verbatim>\<open>sbom\<close>: removing the skipped entries from the list leaves the output
  unchanged. Likewise, with an explicit \<^verbatim>\<open>sbom\<close> input an entry of type sbom
  is skipped unless it is also of type provenance and there is no explicit
  \<^verbatim>\<open>provenance\<close>. The output is always a list of flag pairs.
\<close>

lemma getAttestArgs_explicit_inputs:
  "(provenance i \<noteq> [] \<longrightarrow>
      flagPairs (getAttestArgs tk i) =
        (''--attest'', resolveAttestationAttrs tk (''type=provenance,'' @ provenance i))
        # (if sbom i \<noteq> []
           then [(''--attest'', resolveAttestationAttrs tk (''type=sbom,'' @ sbom i))] else [])
        @ concat (map (\<lambda>a.
            if \<not> hasAttestationType tk ''provenance'' a \<and> \<not> hasAttestationType tk ''sbom'' a
            then [(''--attest'', resolveAttestationAttrs tk a)]
            else if sbom i = [] \<and> hasAttestationType tk ''sbom'' a
            then [(''--attest'', a)]
            else []) (attests i))
      \<and> getAttestArgs tk i =
          getAttestArgs tk (i\<lparr>attests := filter (\<lambda>a. \<not> (hasAttestationType tk ''provenance'' a
              \<and> (hasAttestationType tk ''sbom'' a \<longrightarrow> sbom i \<noteq> []))) (attests i)\<rparr>))
   \<and> (sbom i \<noteq> [] \<longrightarrow>
      getAttestArgs tk i =
          getAttestArgs tk (i\<lparr>attests := filter (\<lambda>a. \<not> (hasAttestationType tk ''sbom'' a
              \<and> (hasAttestationType tk ''provenance'' a \<longrightarrow> provenance i \<noteq> []))) (attests i)\<rparr>))
   \<and> getAttestArgs tk i = unpairs (flagPairs (getAttestArgs tk i))"
proof -
  have skip: "concat (map f (filter Q xs)) = concat (map f xs)"
    if "\<And>x. x \<in> set xs \<Longrightarrow> \<not> Q x \<Longrightarrow> f x = []" for f :: "string \<Rightarrow> (string \<times> string) list" and Q xs
    using that by (induction xs) auto
  have explicit: "flagPairs (getAttestArgs tk i) =
        (''--attest'', resolveAttestationAttrs tk (''type=provenance,'' @ provenance i))
        # (if sbom i \<noteq> []
           then [(''--attest'', resolveAttestationAttrs tk (''type=sbom,'' @ sbom i))] else [])
        @ concat (map (\<lambda>a.
            if \<not> hasAttestationType tk ''provenance'' a \<and> \<not> hasAttestationType tk ''sbom'' a
            then [(''--attest'', resolveAttestationAttrs tk a)]
            else if sbom i = [] \<and> hasAttestationType tk ''sbom'' a
            then [(''--attest'', a)]
            else []) (attests i))"
    if "provenance i \<noteq> []"
  proof -
    have "attestEntry tk True (sbom i \<noteq> []) = (\<lambda>a.
            if \<not> hasAttestationType tk ''provenance'' a \<and> \<not> hasAttestationType tk ''sbom'' a
            then [(''--attest'', resolveAttestationAttrs tk a)]
            else if sbom i = [] \<and> hasAttestationType tk ''sbom'' a
            then [(''--attest'', a)]
            else [])"
      by (simp add: fun_eq_iff attestEntry_def)
    then show ?thesis
      using that by (simp add: getAttestArgs_flags attestFlags_def)
  qed
  have prov: "getAttestArgs tk i =
          getAttestArgs tk (i\<lparr>attests := filter (\<lambda>a. \<not> (hasAttestationType tk ''provenance'' a
              \<and> (hasAttestationType tk ''sbom'' a \<longrightarrow> sbom i \<noteq> []))) (attests i)\<rparr>)"
    if p: "provenance i \<noteq> []"
  proof -
    have "concat (map (attestEntry tk True (sbom i \<noteq> []))
        (filter (\<lambda>a. \<not> (hasAttestationType tk ''provenance'' a
              \<and> (hasAttestationType tk ''sbom'' a \<longrightarrow> sbom i \<noteq> []))) (attests i)))
        = concat (map (attestEntry tk True (sbom i \<noteq> [])) (attests i))"
      by (rule skip) (auto simp: attestEntry_def)
    then show ?thesis
      using p by (simp add: getAttestArgs_flags attestFlags_def split del: if_split cong: if_cong)
  qed
  have sb: "getAttestArgs tk i =
          getAttestArgs tk (i\<lparr>attests := filter (\<lambda>a. \<not> (hasAttestationType tk ''sbom'' a
              \<and> (hasAttestationType tk ''provenance'' a \<longrightarrow> provenance i \<noteq> []))) (attests i)\<rparr>)"
    if s: "sbom i \<noteq> []"
  proof -
    have none: "(\<forall>a \<in> set (filter (\<lambda>a. \<not> (hasAttestationType tk ''sbom'' a
              \<and> (hasAttestationType tk ''provenance'' a \<longrightarrow> provenance i \<noteq> []))) (attests i)).
              \<not> hasAttestationType tk ''provenance'' a)
          = (\<forall>a \<in> set (attests i). \<not> hasAttestationType tk ''provenance'' a)"
      if "provenance i = []"
      using that by auto
    have entries: "concat (map (attestEntry tk (provenance i \<noteq> []) True)
        (filter (\<lambda>a. \<not> (hasAttestationType tk ''sbom'' a
              \<and> (hasAttestationType tk ''provenance'' a \<longrightarrow> provenance i \<noteq> []))) (attests i)))
        = concat (map (attestEntry tk (provenance i \<noteq> []) True) (attests i))"
      by (rule skip) (auto simp: attestEntry_def)
    show ?thesis
    proof (cases "provenance i = []")
      case True
      then show ?thesis
        using s entries none [OF True]
        by (simp add: getAttestArgs_flags attestFlags_def split del: if_split cong: if_cong)
    next
      case False
      then show ?thesis
        using s entries
        by (simp add: getAttestArgs_flags attestFlags_def split del: if_split cong: if_cong)
    qed
  qed
  have pairs: "getAttestArgs tk i = unpairs (flagPairs (getAttestArgs tk i))"
    by (simp add: getAttestArgs_flags)
  from explicit prov sb pairs show ?thesis
    by blast
qed

text \<open>
  C1. The explicit \<^verbatim>\<open>provenance\<close> and \<^verbatim>\<open>sbom\<close> inputs take precedence
  over the entries of \<^verbatim>\<open>attests\<close> (the comment of lines 253 and 254), and
  for an entry of one type they do: with the explicit value \<^verbatim>\<open>mode=max\<close> the
  entry \<^verbatim>\<open>type=provenance,mode=min\<close> is skipped. An entry that carries both
  types is missed: \<^verbatim>\<open>type=provenance,type=sbom\<close> is of type provenance, the
  last loop refuses it in the provenance branch, falls through to the sbom
  branch and pushes it, so the output has a second provenance flag, from the
  list.
\<close>

theorem attest_precedence_missed_for_dual_entry:
  "getAttestArgs (sampleToolkit (0, 12, 0) (0, 11, 0) None)
        (noInputs\<lparr>provenance := ''mode=max'', attests := [''type=provenance,mode=min'']\<rparr>)
     = [''--attest'', ''type=provenance,mode=max'']
   \<and> provenance (noInputs\<lparr>provenance := ''mode=max'', attests := [''type=provenance,type=sbom'']\<rparr>) \<noteq> []
   \<and> hasAttestationType (sampleToolkit (0, 12, 0) (0, 11, 0) None) ''provenance'' ''type=provenance,type=sbom''
   \<and> hasAttestationType (sampleToolkit (0, 12, 0) (0, 11, 0) None) ''sbom'' ''type=provenance,type=sbom''
   \<and> getAttestArgs (sampleToolkit (0, 12, 0) (0, 11, 0) None)
        (noInputs\<lparr>provenance := ''mode=max'', attests := [''type=provenance,type=sbom'']\<rparr>)
     = [''--attest'', ''type=provenance,mode=max'', ''--attest'', ''type=provenance,type=sbom'']
   \<and> getArgs (sampleToolkit (0, 12, 0) (0, 11, 0) None)
        (noInputs\<lparr>provenance := ''mode=max'', attests := [''type=provenance,type=sbom'']\<rparr>)
     = (Inr [''build'', ''--iidfile'', ''/tmp/iidfile'',
             ''--attest'', ''type=provenance,mode=max'',
             ''--attest'', ''type=provenance,type=sbom'',
             ''--metadata-file'', ''/tmp/metadata-file'',
             ''https://github.com/docker/build-push-action.git#refs/heads/master''], [])"
  by (simp add: getArgs_def getCommonArgs_flags getAttestArgs_flags flags_simps sample_simps)

text \<open>
  C2. The default provenance. With no explicit \<^verbatim>\<open>provenance\<close>, no entry of
  type provenance in \<^verbatim>\<open>attests\<close>, BuildKit satisfying \<^verbatim>\<open>>=0.11.0\<close> for
  the builder and \<^verbatim>\<open>Build.hasDockerExporter(outputs, load)\<close> false,
  \<^verbatim>\<open>getAttestArgs\<close> gives first one flag \<^verbatim>\<open>type=provenance,\<close> followed by
  the provenance resolver's rendering of \<^verbatim>\<open>mode=min,inline-only=true\<close> when
  the repository is private and of \<^verbatim>\<open>mode=max\<close> when it is not or when its
  visibility is unknown; the flags after it are the explicit \<^verbatim>\<open>sbom\<close> and
  the list entries, none through the provenance resolver. When buildx satisfies
  \<^verbatim>\<open>>=0.10.0\<close> these are the \<^verbatim>\<open>--attest\<close> values of
  \<^verbatim>\<open>getBuildArgs\<close>.
\<close>

theorem default_provenance:
  assumes "provenance i = []"
    and "\<forall>a \<in> set (attests i). \<not> hasAttestationType tk ''provenance'' a"
    and "buildkit_versionSatisfies tk (builder i) ''>=0.11.0''"
    and "\<not> hasDockerExporter tk (outputs i) (load i)"
  shows "flagPairs (getAttestArgs tk i) =
      (''--attest'', ''type=provenance,'' @ resolveProvenanceAttrs tk
          (if repository_private tk = Some True then ''mode=min,inline-only=true'' else ''mode=max''))
      # (if sbom i \<noteq> []
         then [(''--attest'', resolveAttestationAttrs tk (''type=sbom,'' @ sbom i))] else [])
      @ concat (map (\<lambda>a.
          if \<not> hasAttestationType tk ''sbom'' a then [(''--attest'', resolveAttestationAttrs tk a)]
          else if sbom i = [] then [(''--attest'', a)]
          else []) (attests i))
    \<and> getAttestArgs tk i = unpairs (flagPairs (getAttestArgs tk i))
    \<and> (buildx_versionSatisfies tk ''>=0.10.0'' \<and> fst (getBuildArgs tk i ctx) = Inr ts
         \<longrightarrow> flagValues ''--attest'' ts = map snd (flagPairs (getAttestArgs tk i)))"
proof -
  have entries: "concat (map (attestEntry tk False (sbom i \<noteq> [])) (attests i))
      = concat (map (\<lambda>a.
          if \<not> hasAttestationType tk ''sbom'' a then [(''--attest'', resolveAttestationAttrs tk a)]
          else if sbom i = [] then [(''--attest'', a)]
          else []) (attests i))"
    using assms(2) by (intro concat_map_cong) (simp add: attestEntry_def)
  have explicit: "flagPairs (getAttestArgs tk i) =
      (''--attest'', ''type=provenance,'' @ resolveProvenanceAttrs tk
          (if repository_private tk = Some True then ''mode=min,inline-only=true'' else ''mode=max''))
      # (if sbom i \<noteq> []
         then [(''--attest'', resolveAttestationAttrs tk (''type=sbom,'' @ sbom i))] else [])
      @ concat (map (\<lambda>a.
          if \<not> hasAttestationType tk ''sbom'' a then [(''--attest'', resolveAttestationAttrs tk a)]
          else if sbom i = [] then [(''--attest'', a)]
          else []) (attests i))"
    using assms entries
    by (simp add: getAttestArgs_flags attestFlags_def defaultProvenance_def split del: if_split)
  have pairs: "getAttestArgs tk i = unpairs (flagPairs (getAttestArgs tk i))"
    by (simp add: getAttestArgs_flags)
  have run: "flagValues ''--attest'' ts = map snd (flagPairs (getAttestArgs tk i))"
    if "buildx_versionSatisfies tk ''>=0.10.0''" and r: "fst (getBuildArgs tk i ctx) = Inr ts"
    unfolding getBuildArgs_Inr [OF r] using that(1)
    by (simp add: buildFlags_def tailFlags_def flag_simps comp_def getAttestArgs_flags
          split del: if_split cong: if_cong)
  from explicit pairs run show ?thesis
    by blast
qed

theorem default_provenance_witness:
  "provenance noInputs = []
   \<and> attests noInputs = []
   \<and> buildkit_versionSatisfies (sampleToolkit (0, 12, 0) (0, 11, 0) (Some True)) (builder noInputs) ''>=0.11.0''
   \<and> \<not> hasDockerExporter (sampleToolkit (0, 12, 0) (0, 11, 0) (Some True)) (outputs noInputs) (load noInputs)
   \<and> flagPairs (getAttestArgs (sampleToolkit (0, 12, 0) (0, 11, 0) (Some True)) noInputs)
       = [(''--attest'', ''type=provenance,mode=min,inline-only=true,builder-id=run'')]
   \<and> flagPairs (getAttestArgs (sampleToolkit (0, 12, 0) (0, 11, 0) (Some False)) noInputs)
       = [(''--attest'', ''type=provenance,mode=max,builder-id=run'')]
   \<and> flagPairs (getAttestArgs (sampleToolkit (0, 12, 0) (0, 11, 0) None) noInputs)
       = [(''--attest'', ''type=provenance,mode=max,builder-id=run'')]"
proof -
  have h0: "provenance noInputs = []"
    by (simp add: noInputs_def)
  have h: "\<forall>a \<in> set (attests noInputs).
        \<not> hasAttestationType (sampleToolkit (0, 12, 0) (0, 11, 0) priv) ''provenance'' a"
    "buildkit_versionSatisfies (sampleToolkit (0, 12, 0) (0, 11, 0) priv) (builder noInputs) ''>=0.11.0''"
    "\<not> hasDockerExporter (sampleToolkit (0, 12, 0) (0, 11, 0) priv) (outputs noInputs) (load noInputs)"
    for priv
    by (simp_all add: sample_simps)
  have ev: "sbom noInputs = []" "attests noInputs = []"
    "repository_private (sampleToolkit (0, 12, 0) (0, 11, 0) priv) = priv"
    "resolveProvenanceAttrs (sampleToolkit (0, 12, 0) (0, 11, 0) priv) x = x @ '',builder-id=run''"
    for priv x
    by (simp_all add: sample_simps)
  show ?thesis
    using h0 ev(2) h(2,3) [of "Some True"]
      default_provenance [OF h0 h [of "Some True"]]
      default_provenance [OF h0 h [of "Some False"]]
      default_provenance [OF h0 h [of None]]
    unfolding ev by simp
qed

end
